theory Spec2Isabelle
  imports Complex_Main
begin

section \<open>Numbers of the host language\<close>

text \<open>
  Every number of the program is a JavaScript Number, an IEEE double. The model keeps the
  kinds of value that the arithmetic of lib.js can tell apart: a finite value, the
  negative zero, the two infinities and not-a-number. A finite value is an exact real,
  and \<open>Fin 0\<close> is the positive zero. Products, quotients and decimal literals overflow to
  an infinity and underflow to a zero as doubles do. What stays outside the model is the
  rounding of a result to the nearest double, and the overflow of a sum: that needs a
  term of magnitude \<open>2\<^sup>1\<^sup>0\<^sup>2\<^sup>3\<close> at least, and the sums of lib.js are differences of clock
  readings, less one parsed duration.
\<close>

datatype jsnum = Fin real | NZero | PInf | NInf | NaN

text \<open>
  The sign bit, the two zeros, the two infinities, and the real that a finite number
  stands for (the zeros stand for 0).
\<close>

definition is_neg :: "jsnum \<Rightarrow> bool" where
  "is_neg x = (case x of Fin v \<Rightarrow> v < 0 | NZero \<Rightarrow> True | NInf \<Rightarrow> True | _ \<Rightarrow> False)"

definition is_zero :: "jsnum \<Rightarrow> bool" where
  "is_zero x = (x = Fin 0 \<or> x = NZero)"

definition is_inf :: "jsnum \<Rightarrow> bool" where
  "is_inf x = (x = PInf \<or> x = NInf)"

definition num_val :: "jsnum \<Rightarrow> real" where
  "num_val x = (case x of Fin v \<Rightarrow> v | _ \<Rightarrow> 0)"

text \<open>The zero and the infinity of a given sign: \<open>pos\<close> tells whether it is positive.\<close>

definition zero_of :: "bool \<Rightarrow> jsnum" where
  "zero_of pos = (if pos then Fin 0 else NZero)"

definition inf_of :: "bool \<Rightarrow> jsnum" where
  "inf_of pos = (if pos then PInf else NInf)"

text \<open>
  The double that a real result becomes, rounding apart. The largest double is
  \<open>2\<^sup>1\<^sup>0\<^sup>2\<^sup>4 - 2\<^sup>9\<^sup>7\<^sup>1\<close> and the smallest positive one \<open>2\<^sup>-\<^sup>1\<^sup>0\<^sup>7\<^sup>4\<close>; with round-to-nearest, ties
  to even, a magnitude from \<open>2\<^sup>1\<^sup>0\<^sup>2\<^sup>4 - 2\<^sup>9\<^sup>7\<^sup>0\<close> on becomes an infinity and one up to
  \<open>2\<^sup>-\<^sup>1\<^sup>0\<^sup>7\<^sup>5\<close> a zero, of the sign of the result.
\<close>

definition nearest :: "real \<Rightarrow> jsnum" where
  "nearest x =
     (if 2 ^ 1024 - 2 ^ 970 \<le> \<bar>x\<bar> then inf_of (0 < x)
      else if \<bar>x\<bar> \<le> 1 / 2 ^ 1075 then zero_of (0 \<le> x)
      else Fin x)"

text \<open>The reals strictly between the two thresholds: results that stay as they are.\<close>

definition in_double_range :: "real \<Rightarrow> bool" where
  "in_double_range x \<longleftrightarrow> 1 / 2 ^ 1075 < \<bar>x\<bar> \<and> \<bar>x\<bar> < 2 ^ 1024 - 2 ^ 970"

fun num_neg :: "jsnum \<Rightarrow> jsnum" where
  "num_neg (Fin x) = (if x = 0 then NZero else Fin (- x))"
| "num_neg NZero = Fin 0"
| "num_neg PInf = NInf"
| "num_neg NInf = PInf"
| "num_neg NaN = NaN"

text \<open>
  A sum is a negative zero only when both terms are; opposite infinities have no sum.
\<close>

fun num_add :: "jsnum \<Rightarrow> jsnum \<Rightarrow> jsnum" where
  "num_add NaN _ = NaN"
| "num_add _ NaN = NaN"
| "num_add (Fin x) (Fin y) = Fin (x + y)"
| "num_add NZero b = b"
| "num_add a NZero = a"
| "num_add (Fin _) PInf = PInf"
| "num_add (Fin _) NInf = NInf"
| "num_add PInf NInf = NaN"
| "num_add NInf PInf = NaN"
| "num_add PInf _ = PInf"
| "num_add NInf _ = NInf"

definition num_sub :: "jsnum \<Rightarrow> jsnum \<Rightarrow> jsnum" where
  "num_sub a b = num_add a (num_neg b)"

text \<open>
  A product: zero times infinity is not a number; otherwise an infinite factor makes it
  infinite and a zero factor makes it zero, with the product of the signs; two other
  factors give the double of their product.
\<close>

definition num_mul :: "jsnum \<Rightarrow> jsnum \<Rightarrow> jsnum" where
  "num_mul a b =
     (if a = NaN \<or> b = NaN then NaN
      else if (is_zero a \<and> is_inf b) \<or> (is_inf a \<and> is_zero b) then NaN
      else if is_inf a \<or> is_inf b then inf_of (is_neg a = is_neg b)
      else if is_zero a \<or> is_zero b then zero_of (is_neg a = is_neg b)
      else nearest (num_val a * num_val b))"

text \<open>
  A quotient: zero by zero and infinity by infinity are not numbers; otherwise an
  infinite dividend or a zero divisor makes it infinite, a zero dividend or an infinite
  divisor makes it zero, with the product of the signs; two other operands give the
  double of their quotient.
\<close>

definition num_div :: "jsnum \<Rightarrow> jsnum \<Rightarrow> jsnum" where
  "num_div a b =
     (if a = NaN \<or> b = NaN then NaN
      else if (is_zero a \<and> is_zero b) \<or> (is_inf a \<and> is_inf b) then NaN
      else if is_inf a \<or> is_zero b then inf_of (is_neg a = is_neg b)
      else if is_zero a \<or> is_inf b then zero_of (is_neg a = is_neg b)
      else nearest (num_val a / num_val b))"

text \<open>
  \<open>a < b\<close> of the host language: false as soon as one side is not-a-number; the two
  zeros compare equal.
\<close>

fun num_less :: "jsnum \<Rightarrow> jsnum \<Rightarrow> bool" where
  "num_less NaN _ = False"
| "num_less _ NaN = False"
| "num_less (Fin x) (Fin y) = (x < y)"
| "num_less (Fin x) NZero = (x < 0)"
| "num_less NZero (Fin y) = (0 < y)"
| "num_less NZero NZero = False"
| "num_less PInf _ = False"
| "num_less _ PInf = True"
| "num_less NInf NInf = False"
| "num_less NInf _ = True"
| "num_less _ NInf = False"

text \<open>
  \<open>Math.min(...xs)\<close> and \<open>Math.max(...xs)\<close>: not-a-number as soon as one argument is,
  and the neutral infinity when there is no argument at all. They take the negative zero
  for smaller than the positive one.
\<close>

definition Math_min :: "jsnum list \<Rightarrow> jsnum" where
  "Math_min xs =
     (if NaN \<in> set xs then NaN
      else fold (\<lambda>x m. if num_less x m \<or> (x = NZero \<and> m = Fin 0) then x else m) xs PInf)"

definition Math_max :: "jsnum list \<Rightarrow> jsnum" where
  "Math_max xs =
     (if NaN \<in> set xs then NaN
      else fold (\<lambda>x m. if num_less m x \<or> (m = NZero \<and> x = Fin 0) then x else m) xs NInf)"

section \<open>Strings of the host language\<close>

definition is_digit :: "char \<Rightarrow> bool" where
  "is_digit c = (c \<in> set ''0123456789'')"

definition digit_val :: "char \<Rightarrow> nat" where
  "digit_val c = of_char c - 48"

definition digits_val :: "string \<Rightarrow> nat" where
  "digits_val ds = foldl (\<lambda>a c. 10 * a + digit_val c) 0 ds"

text \<open>
  The white space and line terminators that a header value can hold (Node decodes header
  bytes as Latin-1): tab, line feed, vertical tab, form feed, carriage return, space and
  the no-break space.
\<close>

definition is_space :: "char \<Rightarrow> bool" where
  "is_space c = ((of_char c :: nat) \<in> {9, 10, 11, 12, 13, 32, 160})"

definition pow10 :: "int \<Rightarrow> real" where
  "pow10 e = (if 0 \<le> e then 10 ^ nat e else 1 / 10 ^ nat (- e))"

text \<open>
  The exponent part of a decimal literal: \<open>e\<close> or \<open>E\<close>, an optional sign and at least
  one digit. Anything else is no exponent part, and the literal ends before it.
\<close>

definition signed_digits :: "int \<Rightarrow> string \<Rightarrow> int" where
  "signed_digits sg u =
     (let ds = takeWhile is_digit u in if ds = [] then 0 else sg * int (digits_val ds))"

definition exponent_part :: "string \<Rightarrow> int" where
  "exponent_part s =
     (case s of
        [] \<Rightarrow> 0
      | c # t \<Rightarrow>
          if c = CHR ''e'' \<or> c = CHR ''E'' then
            (case t of
               [] \<Rightarrow> 0
             | d # u \<Rightarrow>
                 if d = CHR ''+'' then signed_digits 1 u
                 else if d = CHR ''-'' then signed_digits (- 1) u
                 else signed_digits 1 t)
          else 0)"

text \<open>
  The longest prefix that is an unsigned decimal literal (\<open>Infinity\<close>, digits with an
  optional fraction, or a fraction alone, each with an optional exponent part), as a
  number: the double of the real that the literal denotes, so an infinity for a literal
  too large and a zero for one too small. Not-a-number when no prefix is a literal.
\<close>

definition str_unsigned :: "string \<Rightarrow> jsnum" where
  "str_unsigned s =
     (if take 8 s = ''Infinity'' then PInf
      else
        let ip = takeWhile is_digit s;
            r1 = dropWhile is_digit s;
            fp = (case r1 of [] \<Rightarrow> [] | c # t \<Rightarrow> if c = CHR ''.'' then takeWhile is_digit t else []);
            r2 = (case r1 of [] \<Rightarrow> [] | c # t \<Rightarrow> if c = CHR ''.'' then dropWhile is_digit t else r1)
        in if ip = [] \<and> fp = [] then NaN
           else nearest (real (digits_val (ip @ fp)) / 10 ^ length fp * pow10 (exponent_part r2)))"

text \<open>
  \<open>parseFloat(s)\<close>: leading white space is skipped, then a sign may come; \<open>-0\<close> is the
  negative zero.
\<close>

definition parseFloat :: "string \<Rightarrow> jsnum" where
  "parseFloat s =
     (let t = dropWhile is_space s in
      case t of
        [] \<Rightarrow> NaN
      | c # u \<Rightarrow>
          if c = CHR ''-'' then num_neg (str_unsigned u)
          else if c = CHR ''+'' then str_unsigned u
          else str_unsigned t)"

text \<open>
  Whether a text carries a number at its start: after white space and an optional sign
  comes \<open>Infinity\<close>, a digit, or a point followed by a digit.
\<close>

definition starts_number :: "string \<Rightarrow> bool" where
  "starts_number s =
     (let t = dropWhile is_space s;
          u = (case t of [] \<Rightarrow> [] | c # r \<Rightarrow> if c = CHR ''-'' \<or> c = CHR ''+'' then r else t)
      in take 8 u = ''Infinity'' \<or>
         (case u of
            [] \<Rightarrow> False
          | c # r \<Rightarrow> is_digit c \<or> (c = CHR ''.'' \<and> (case r of [] \<Rightarrow> False | d # _ \<Rightarrow> is_digit d))))"

text \<open>The decimal digits of a natural number, as a template literal prints an integer.\<close>

definition digit_char :: "nat \<Rightarrow> char" where
  "digit_char d = ''0123456789'' ! d"

function show_nat :: "nat \<Rightarrow> string" where
  "show_nat n = (if n < 10 then [digit_char n] else show_nat (n div 10) @ [digit_char (n mod 10)])"
  by pat_completeness auto
termination
  by (relation "measure (\<lambda>n. n)") auto

declare show_nat.simps [simp del]

text \<open>
  \<open>x.toFixed(f)\<close>. A value that is not finite prints as its name. A finite one, the
  negative zero counting as 0, is rounded to the nearest multiple of \<open>10\<^sup>-\<^sup>f\<close>, the larger
  one on a tie, and printed with exactly \<open>f\<close> digits after the point, behind a minus sign
  when it is negative. From \<open>10\<^sup>2\<^sup>1\<close> on the engine prints the value in its exponent
  notation, which needs the digits of the double: that printer is the parameter \<open>big\<close>.
\<close>

definition toFixed :: "(real \<Rightarrow> string) \<Rightarrow> nat \<Rightarrow> jsnum \<Rightarrow> string" where
  "toFixed big f x =
     (case x of
        NaN \<Rightarrow> ''NaN''
      | PInf \<Rightarrow> ''Infinity''
      | NInf \<Rightarrow> ''-Infinity''
      | _ \<Rightarrow>
          let r = num_val x in
          (if r < 0 then ''-'' else []) @
          (if 10 ^ 21 \<le> \<bar>r\<bar> then big \<bar>r\<bar>
           else
             let n = nat \<lfloor>\<bar>r\<bar> * 10 ^ f + 1 / 2\<rfloor>;
                 m = show_nat n;
                 z = (if length m \<le> f then replicate (f + 1 - length m) (CHR ''0'') @ m else m)
             in if f \<noteq> 0 then take (length z - f) z @ ''.'' @ drop (length z - f) z else m))"

text \<open>A text of the shape \<open>-?[0-9]+.[0-9][0-9]\<close>: a number with exactly two decimal places.\<close>

definition two_decimals :: "string \<Rightarrow> bool" where
  "two_decimals s =
     (let u = (case s of [] \<Rightarrow> [] | c # r \<Rightarrow> if c = CHR ''-'' then r else s)
      in takeWhile is_digit u \<noteq> [] \<and>
         (case dropWhile is_digit u of
            [p, a, b] \<Rightarrow> p = CHR ''.'' \<and> is_digit a \<and> is_digit b
          | _ \<Rightarrow> False))"

text \<open>\<open>s.split(c)\<close> for a separator of one character: never an empty list.\<close>

fun split_on :: "char \<Rightarrow> string \<Rightarrow> string list" where
  "split_on c [] = [[]]"
| "split_on c (x # xs) =
     (if x = c then [] # split_on c xs
      else (case split_on c xs of [] \<Rightarrow> [[x]] | p # ps \<Rightarrow> (x # p) # ps))"

section \<open>Objects used as dictionaries\<close>

text \<open>
  lib.js builds its dictionaries by assigning to the properties of an object created by
  \<open>{}\<close>. Such an assignment makes or updates an own property, except for the key
  \<open>__proto__\<close>: that one reaches the accessor inherited from \<open>Object.prototype\<close>, whose
  setter ignores a value that is neither an object nor null, so nothing is stored.
\<close>

type_synonym 'v jsobj = "string \<rightharpoonup> 'v"

definition obj_assign :: "'v jsobj \<Rightarrow> string \<Rightarrow> 'v \<Rightarrow> 'v jsobj" where
  "obj_assign data k v = (if k = ''__proto__'' then data else data(k \<mapsto> v))"

text \<open>
  Reading a property that is not an own one goes to \<open>Object.prototype\<close>. What is found
  there is only ever put into a template literal, so the model keeps the text it prints
  as.
\<close>

definition prototype_member :: "string \<Rightarrow> string option" where
  "prototype_member k =
     (if k = ''__proto__'' then Some ''[object Object]''
      else if k = ''constructor'' then Some ''function Object() { [native code] }''
      else if k \<in> set [''__defineGetter__'', ''__defineSetter__'', ''hasOwnProperty'',
                        ''__lookupGetter__'', ''__lookupSetter__'', ''isPrototypeOf'',
                        ''propertyIsEnumerable'', ''toString'', ''valueOf'', ''toLocaleString'']
      then Some (''function '' @ k @ ''() { [native code] }'')
      else None)"

text \<open>\<open>`${obj[k]}`\<close>: the text of a property in a template literal.\<close>

definition template_of :: "string option \<Rightarrow> string" where
  "template_of v = (case v of None \<Rightarrow> ''undefined'' | Some s \<Rightarrow> s)"

definition obj_get :: "string jsobj \<Rightarrow> string \<Rightarrow> string option" where
  "obj_get data k = (case data k of Some v \<Rightarrow> Some v | None \<Rightarrow> prototype_member k)"

section \<open>Location data and trace\<close>

text \<open>
  \<^verbatim>\<open>res.reduce((data, { iata, city }) => { data[iata] = city; return data; }, {})\<close>
  on the decoded list of the locations endpoint.
\<close>

definition fetchServerLocationData :: "(string \<times> string) list \<Rightarrow> string jsobj" where
  "fetchServerLocationData res = fold (\<lambda>(iata, city) data. obj_assign data iata city) res Map.empty"

text \<open>
  \<^verbatim>\<open>text.split("\n").map((i) => { const j = i.split("="); return [j[0], j[1]]; })
      .reduce((data, [k, v]) => { if (v === undefined) return data;
                                  data[k] = v; return data; }, {})\<close>
  \<open>j[1]\<close> is undefined when the line has no separator.
\<close>

definition key_value :: "string \<Rightarrow> string \<times> string option" where
  "key_value i = (let j = split_on (CHR ''='') i in (hd j, if 1 < length j then Some (j ! 1) else None))"

definition parseCfCdnCgiTrace :: "string \<Rightarrow> string jsobj" where
  "parseCfCdnCgiTrace text =
     fold (\<lambda>(k, v) data. case v of None \<Rightarrow> data | Some v' \<Rightarrow> obj_assign data k v')
          (map key_value (split_on (CHR 0x0A) text)) Map.empty"

section \<open>The timed transaction client\<close>

text \<open>
  What the program cannot decide is the network. One call of \<open>request\<close> meets one
  exchange: either the request emits \<open>error\<close>, or the response ends, and then the exchange
  holds the clock readings taken by the event handlers that ran (the socket events and
  \<open>readable\<close> may not fire) and the headers of the response. An exchange that never ends
  is not modelled: the source has no timeout and would wait.
\<close>

record exchange =
  at_request :: real
  at_lookup :: "real option"
  at_connect :: "real option"
  at_secureConnect :: "real option"
  at_readable :: "real option"
  at_end :: real
  res_headers :: "(string \<times> string) list"

datatype wire = Fails string | Completes exchange

text \<open>The object a transaction resolves with; a field never assigned is undefined.\<close>

record transaction =
  started :: real
  dnsLookup :: "real option"
  tcpHandshake :: "real option"
  sslHandshake :: "real option"
  ttfb :: "real option"
  ended :: real
  serverTiming :: jsnum

text \<open>
  An exception is either the rejection of the running asynchronous function or an
  exception that no handler catches; both end the run.
\<close>

datatype error = TypeError | RangeError | Failure string

text \<open>
  A promise of \<open>request\<close> resolves, rejects with an error (kept as the text it prints as),
  or its handler throws: an exception raised inside an event handler is outside the
  promise, so neither of the two callbacks of \<open>then\<close> sees it.
\<close>

datatype 'a promise = Resolved 'a | Rejected string | Uncaught error

text \<open>
  \<^verbatim>\<open>res.on("end", () => {
    ended = performance.now();
    resolve({started, dnsLookup, tcpHandshake, sslHandshake, ttfb, ended,
             serverTiming: parseFloat(res.headers["server-timing"].slice(22))});
  });
  req.on("error", (error) => { reject(error); });\<close>
  Without the header \<open>res.headers["server-timing"]\<close> is undefined and \<open>.slice\<close> throws a
  TypeError inside the handler.
\<close>

definition settle :: "wire \<Rightarrow> transaction promise" where
  "settle x =
     (case x of
        Fails e \<Rightarrow> Rejected e
      | Completes ex \<Rightarrow>
          (case map_of (res_headers ex) ''server-timing'' of
             None \<Rightarrow> Uncaught TypeError
           | Some v \<Rightarrow>
               Resolved \<lparr>started = at_request ex, dnsLookup = at_lookup ex,
                         tcpHandshake = at_connect ex, sslHandshake = at_secureConnect ex,
                         ttfb = at_readable ex, ended = at_end ex,
                         serverTiming = parseFloat (drop 22 v)\<rparr>))"

datatype http_method = GET | POST

record http_request =
  hostname :: string
  path :: string
  req_method :: http_method
  headers :: "(string \<times> nat) list"
  body :: string

text \<open>
  The report of JSON mode, and a line of the console. The styling functions of chalk.js
  are not part of the sources: a styled line is kept as the texts handed to them, in
  order. The JSON document is kept as the object handed to \<open>JSON.stringify\<close>.
\<close>

record latency_report =
  min_ms :: string
  max_ms :: string
  average_ms :: string
  median_ms :: string
  jitter_ms :: string

record speed_entry =
  size_label :: string
  speed :: string

record report =
  server_location :: string
  your_ip :: string
  latency :: latency_report
  download_speeds :: "speed_entry list"
  upload_speeds :: "speed_entry list"

datatype console_line = Styled "string list" | JsonDoc report

text \<open>
  The state the program reads and writes: the exchange that the \<open>k\<close>-th call of \<open>request\<close>
  meets, the requests issued so far, what went to \<open>console.error\<close> and to \<open>console.log\<close>,
  and the two module variables \<open>flushing\<close> and \<open>results\<close> (undefined until assigned).
\<close>

record world =
  net :: "nat \<Rightarrow> wire"
  sent :: "http_request list"
  stderr :: "string list"
  stdout :: "console_line list"
  flushing :: bool
  results :: "report option"

definition request :: "http_request \<Rightarrow> world \<Rightarrow> transaction promise \<times> world" where
  "request options w = (settle (net w (length (sent w))), w\<lparr>sent := sent w @ [options]\<rparr>)"

section \<open>Benchmark primitives\<close>

text \<open>
  \<^verbatim>\<open>function download(bytes) {
    const options = { hostname: "speed.cloudflare.com", path: `/__down?bytes=${bytes}`, method: "GET" };
    return request(options);
  }
  function upload(bytes) {
    const data = "0".repeat(bytes);
    const options = { hostname: "speed.cloudflare.com", path: "/__up", method: "POST",
                      headers: { "Content-Length": Buffer.byteLength(data) } };
    return request(options, data);
  }\<close>
\<close>

definition download_options :: "nat \<Rightarrow> http_request" where
  "download_options bytes =
     \<lparr>hostname = ''speed.cloudflare.com'', path = ''/__down?bytes='' @ show_nat bytes,
      req_method = GET, headers = [], body = []\<rparr>"

definition download :: "nat \<Rightarrow> world \<Rightarrow> transaction promise \<times> world" where
  "download bytes = request (download_options bytes)"

definition upload_options :: "nat \<Rightarrow> http_request" where
  "upload_options bytes =
     (let data = replicate bytes (CHR ''0'')
      in \<lparr>hostname = ''speed.cloudflare.com'', path = ''/__up'', req_method = POST,
          headers = [(''Content-Length'', length data)], body = data\<rparr>)"

definition upload :: "nat \<Rightarrow> world \<Rightarrow> transaction promise \<times> world" where
  "upload bytes = request (upload_options bytes)"

text \<open>
  \<^verbatim>\<open>function measureSpeed(bytes, duration) {
    return (bytes * 8) / (duration / 1000) / 1e6;
  }\<close>
\<close>

definition measureSpeed :: "jsnum \<Rightarrow> jsnum \<Rightarrow> jsnum" where
  "measureSpeed bytes duration =
     num_div (num_div (num_mul bytes (Fin 8)) (num_div duration (Fin 1000))) (Fin 1000000)"

section \<open>Trial runners\<close>

text \<open>
  What lib.js calls and does not define: the four functions of stats.js and the engine's
  printer of numbers from \<open>10\<^sup>2\<^sup>1\<close> on. They are parameters of the model. A statistic
  either throws or returns a number; its callers only ever apply \<open>toFixed\<close> to it, which
  throws on anything else. The functions leave their argument as it is.
\<close>

record host =
  average :: "jsnum list \<Rightarrow> error + jsnum"
  median :: "jsnum list \<Rightarrow> error + jsnum"
  jitter :: "jsnum list \<Rightarrow> error + jsnum"
  quartile :: "jsnum list \<Rightarrow> jsnum \<Rightarrow> error + jsnum"
  number_to_string :: "real \<Rightarrow> string"

text \<open>Sequencing: the first exception ends the run.\<close>

definition then_do :: "error + 'a \<Rightarrow> ('a \<Rightarrow> error + 'b) \<Rightarrow> error + 'b" where
  "then_do m f = (case m of Inl e \<Rightarrow> Inl e | Inr x \<Rightarrow> f x)"

text \<open>
  The three runners share one loop:
  \<^verbatim>\<open>const measurements = [];
  for (let i = 0; i < iterations; i += 1) {
    await prim(bytes).then(
      (response) => { measurements.push(meas(response)); },
      (error) => { console.error(`Error: ${error}`); },
    );
  }
  return measurements;\<close>
\<close>

function trials ::
  "(world \<Rightarrow> transaction promise \<times> world) \<Rightarrow> (transaction \<Rightarrow> jsnum) \<Rightarrow>
   nat \<Rightarrow> nat \<Rightarrow> jsnum list \<Rightarrow> world \<Rightarrow> error + jsnum list \<times> world" where
  "trials prim meas i iterations measurements w =
     (if i < iterations then
        (case prim w of
           (Resolved response, w') \<Rightarrow>
             trials prim meas (i + 1) iterations (measurements @ [meas response]) w'
         | (Rejected err, w') \<Rightarrow>
             trials prim meas (i + 1) iterations measurements
               (w'\<lparr>stderr := stderr w' @ [''Error: '' @ err]\<rparr>)
         | (Uncaught e, w') \<Rightarrow> Inl e)
      else Inr (measurements, w))"
  by pat_completeness auto
termination
  by (relation "measure (\<lambda>(prim, f, i, iterations, ms, w). iterations - i)") auto

declare trials.simps [simp del]

text \<open>An undefined operand of an arithmetic operator converts to not-a-number.\<close>

definition to_number :: "real option \<Rightarrow> jsnum" where
  "to_number v = (case v of None \<Rightarrow> NaN | Some x \<Rightarrow> Fin x)"

text \<open>
  \<^verbatim>\<open>measurements.push(response.ttfb - response.started - response.serverTiming);\<close>
  in the loop of \<open>measureLatency\<close>, which runs 20 downloads of 1000 bytes.
\<close>

definition latency_of :: "transaction \<Rightarrow> jsnum" where
  "latency_of response =
     num_sub (num_sub (to_number (ttfb response)) (Fin (started response))) (serverTiming response)"

definition latencyMeasurements :: "world \<Rightarrow> error + jsnum list \<times> world" where
  "latencyMeasurements = trials (download 1000) latency_of 0 20 []"

text \<open>
  \<^verbatim>\<open>return [Math.min(...measurements), Math.max(...measurements), stats.average(measurements),
          stats.median(measurements), stats.jitter(measurements)];\<close>
\<close>

definition measureLatency :: "host \<Rightarrow> world \<Rightarrow> error + jsnum list \<times> world" where
  "measureLatency h w =
     then_do (latencyMeasurements w) (\<lambda>(measurements, w').
     then_do (average h measurements) (\<lambda>a.
     then_do (median h measurements) (\<lambda>m.
     then_do (jitter h measurements) (\<lambda>j.
     Inr ([Math_min measurements, Math_max measurements, a, m, j], w')))))"

text \<open>
  \<^verbatim>\<open>const transferTime = response.ended - response.ttfb;
  measurements.push(measureSpeed(bytes, transferTime));\<close>
\<close>

definition download_speed :: "nat \<Rightarrow> transaction \<Rightarrow> jsnum" where
  "download_speed bytes response =
     (let transferTime = num_sub (Fin (ended response)) (to_number (ttfb response))
      in measureSpeed (Fin (real bytes)) transferTime)"

definition measureDownload :: "nat \<Rightarrow> nat \<Rightarrow> world \<Rightarrow> error + jsnum list \<times> world" where
  "measureDownload bytes iterations = trials (download bytes) (download_speed bytes) 0 iterations []"

text \<open>
  \<^verbatim>\<open>const transferTime = response.serverTiming;
  measurements.push(measureSpeed(bytes, transferTime));\<close>
\<close>

definition upload_speed :: "nat \<Rightarrow> transaction \<Rightarrow> jsnum" where
  "upload_speed bytes response =
     (let transferTime = serverTiming response in measureSpeed (Fin (real bytes)) transferTime)"

definition measureUpload :: "nat \<Rightarrow> nat \<Rightarrow> world \<Rightarrow> error + jsnum list \<times> world" where
  "measureUpload bytes iterations = trials (upload bytes) (upload_speed bytes) 0 iterations []"

section \<open>Reporting\<close>

text \<open>
  \<open>" ".repeat(n)\<close> throws a RangeError for a negative count. Each function returns the
  world it leaves.
\<close>

definition logInfo :: "string \<Rightarrow> string \<Rightarrow> world \<Rightarrow> error + world" where
  "logInfo text data w =
     (if flushing w then
        (if 15 < length text then Inl RangeError
         else Inr (w\<lparr>stdout := stdout w @
                       [Styled [replicate (15 - length text) (CHR '' ''), text @ '':'', data]]\<rparr>))
      else Inr w)"

definition logLatency :: "latency_report \<Rightarrow> world \<Rightarrow> world" where
  "logLatency data w =
     (if flushing w then
        w\<lparr>stdout := stdout w @
             [Styled [''         Latency:'', median_ms data @ '' ms''],
              Styled [''          Jitter:'', jitter_ms data @ '' ms'']]\<rparr>
      else w)"

text \<open>
  \<^verbatim>\<open>function logSpeedTestResult(display_size, test) {
    const display_speed = stats.median(test).toFixed(2);
    if (flushing) { console.log(bold(" ".repeat(9 - display_size.length), display_size, "speed:",
                                     yellow(`${display_speed} Mbps`))); return; }
    results.download_speeds.push({ size: display_size, speed: display_speed });
  }\<close>
\<close>

definition logSpeedTestResult :: "host \<Rightarrow> string \<Rightarrow> jsnum list \<Rightarrow> world \<Rightarrow> error + world" where
  "logSpeedTestResult h display_size test w =
     then_do (median h test) (\<lambda>m.
     let display_speed = toFixed (number_to_string h) 2 m in
     if flushing w then
       (if 9 < length display_size then Inl RangeError
        else Inr (w\<lparr>stdout := stdout w @
                      [Styled [replicate (9 - length display_size) (CHR '' ''), display_size,
                               ''speed:'', display_speed @ '' Mbps'']]\<rparr>))
     else
       (case results w of
          None \<Rightarrow> Inl TypeError
        | Some r \<Rightarrow>
            Inr (w\<lparr>results := Some (r\<lparr>download_speeds := download_speeds r @
                        [\<lparr>size_label = display_size, speed = display_speed\<rparr>]\<rparr>)\<rparr>)))"

text \<open>
  \<^verbatim>\<open>function logDownloadSpeed(tests) {
    const display_speed = stats.quartile(tests, 0.9).toFixed(2);
    if (flushing) { console.log(bold("  Download speed:", green(display_speed, "Mbps"))); return; }
    results.download_speeds.push({ size: "overall", speed: display_speed });
  }\<close>
  and the same for \<open>logUploadSpeed\<close> with \<open>upload_speeds\<close>.
\<close>

definition logDownloadSpeed :: "host \<Rightarrow> jsnum list \<Rightarrow> world \<Rightarrow> error + world" where
  "logDownloadSpeed h tests w =
     then_do (quartile h tests (Fin (9 / 10))) (\<lambda>q.
     let display_speed = toFixed (number_to_string h) 2 q in
     if flushing w then
       Inr (w\<lparr>stdout := stdout w @ [Styled [''  Download speed:'', display_speed, ''Mbps'']]\<rparr>)
     else
       (case results w of
          None \<Rightarrow> Inl TypeError
        | Some r \<Rightarrow>
            Inr (w\<lparr>results := Some (r\<lparr>download_speeds := download_speeds r @
                        [\<lparr>size_label = ''overall'', speed = display_speed\<rparr>]\<rparr>)\<rparr>)))"

definition logUploadSpeed :: "host \<Rightarrow> jsnum list \<Rightarrow> world \<Rightarrow> error + world" where
  "logUploadSpeed h tests w =
     then_do (quartile h tests (Fin (9 / 10))) (\<lambda>q.
     let display_speed = toFixed (number_to_string h) 2 q in
     if flushing w then
       Inr (w\<lparr>stdout := stdout w @ [Styled [''    Upload speed:'', display_speed, ''Mbps'']]\<rparr>)
     else
       (case results w of
          None \<Rightarrow> Inl TypeError
        | Some r \<Rightarrow>
            Inr (w\<lparr>results := Some (r\<lparr>upload_speeds := upload_speeds r @
                        [\<lparr>size_label = ''overall'', speed = display_speed\<rparr>]\<rparr>)\<rparr>)))"

section \<open>The orchestrator\<close>

text \<open>
  \<^verbatim>\<open>process.argv.slice(2).forEach((arg) => {
    if (arg.startsWith("--")) { args[arg.slice(2)] = true; }
  });\<close>
\<close>

definition parseArgs :: "string list \<Rightarrow> bool jsobj" where
  "parseArgs argv =
     fold (\<lambda>arg args. if take 2 arg = ''--'' then obj_assign args (drop 2 arg) True else args)
          (drop 2 argv) Map.empty"

text \<open>
  \<open>speedTest\<close>. The three operations of \<open>Promise.all\<close> share no state: the latency probe
  is the only one that goes through \<open>request\<close>, and the two fetches are given by what they
  settle with, the decoded list of locations and the text of the trace, or the error
  they reject with. Which rejection \<open>Promise.all\<close> reports is a race; the model reports
  the first in the order of the array.
\<close>

definition speedTest ::
  "host \<Rightarrow> string list \<Rightarrow> error + (string \<times> string) list \<Rightarrow> error + string \<Rightarrow>
   world \<Rightarrow> error + world" where
  "speedTest h argv locations trace_text w0 =
     (let args = parseArgs argv;
          fixed = toFixed (number_to_string h) 2
      in
      then_do (measureLatency h w0) (\<lambda>(ping, w).
      then_do locations (\<lambda>res.
      then_do trace_text (\<lambda>text.
      let serverLocationData = fetchServerLocationData res;
          trace = parseCfCdnCgiTrace text;
          ip = trace ''ip''; loc = trace ''loc''; colo = trace ''colo'';
          w = w\<lparr>flushing := \<not> (args ''json'' = Some True)\<rparr>;
          city = obj_get serverLocationData (template_of colo);
          r = \<lparr>server_location = template_of city @ '' ('' @ template_of colo @ '')'',
               your_ip = template_of ip @ '' ('' @ template_of loc @ '')'',
               latency = \<lparr>min_ms = fixed (ping ! 0), max_ms = fixed (ping ! 1),
                           average_ms = fixed (ping ! 2), median_ms = fixed (ping ! 3),
                           jitter_ms = fixed (ping ! 4)\<rparr>,
               download_speeds = [], upload_speeds = []\<rparr>;
          w = w\<lparr>results := Some r\<rparr>
      in
      then_do (logInfo ''Server Location'' (server_location r) w) (\<lambda>w.
      then_do (logInfo ''Your IP'' (your_ip r) w) (\<lambda>w.
      let w = logLatency (latency r) w in
      then_do (measureDownload 101000 10 w) (\<lambda>(testDown1, w).
      then_do (logSpeedTestResult h ''100kB'' testDown1 w) (\<lambda>w.
      then_do (measureDownload 1001000 8 w) (\<lambda>(testDown2, w).
      then_do (logSpeedTestResult h ''1MB'' testDown2 w) (\<lambda>w.
      then_do (measureDownload 10001000 6 w) (\<lambda>(testDown3, w).
      then_do (logSpeedTestResult h ''10MB'' testDown3 w) (\<lambda>w.
      then_do (measureDownload 25001000 4 w) (\<lambda>(testDown4, w).
      then_do (logSpeedTestResult h ''25MB'' testDown4 w) (\<lambda>w.
      then_do (measureDownload 100001000 1 w) (\<lambda>(testDown5, w).
      then_do (logSpeedTestResult h ''100MB'' testDown5 w) (\<lambda>w.
      let downloadTests = testDown1 @ testDown2 @ testDown3 @ testDown4 @ testDown5 in
      then_do (logDownloadSpeed h downloadTests w) (\<lambda>w.
      then_do (measureUpload 11000 10 w) (\<lambda>(testUp1, w).
      then_do (measureUpload 101000 10 w) (\<lambda>(testUp2, w).
      then_do (measureUpload 1001000 8 w) (\<lambda>(testUp3, w).
      let uploadTests = testUp1 @ testUp2 @ testUp3 in
      then_do (logUploadSpeed h uploadTests w) (\<lambda>w.
      Inr (if args ''json'' = Some True
           then w\<lparr>stdout := stdout w @
                     [case results w of None \<Rightarrow> Styled [''undefined''] | Some d \<Rightarrow> JsonDoc d]\<rparr>
           else w))))))))))))))))))))))"

section \<open>Vocabulary of the properties\<close>

text \<open>
  The promises that the next \<open>n\<close> calls of \<open>request\<close> return, in the order of the calls;
  of a list of promises, the values of those that resolved, the errors of those that
  rejected, and the first exception thrown by a handler, if any.
\<close>

definition outcomes :: "world \<Rightarrow> nat \<Rightarrow> transaction promise list" where
  "outcomes w n = map (\<lambda>k. settle (net w (length (sent w) + k))) [0..<n]"

fun resolved :: "'a promise list \<Rightarrow> 'a list" where
  "resolved [] = []"
| "resolved (Resolved r # ps) = r # resolved ps"
| "resolved (_ # ps) = resolved ps"

fun rejected :: "'a promise list \<Rightarrow> string list" where
  "rejected [] = []"
| "rejected (Rejected e # ps) = e # rejected ps"
| "rejected (_ # ps) = rejected ps"

fun first_uncaught :: "'a promise list \<Rightarrow> error option" where
  "first_uncaught [] = None"
| "first_uncaught (Uncaught e # ps) = Some e"
| "first_uncaught (_ # ps) = first_uncaught ps"

fun settles :: "'a promise \<Rightarrow> bool" where
  "settles (Uncaught _) = False"
| "settles _ = True"

text \<open>
  Two exchanges that tell the same about the server: both fail, or both end with the same
  headers, whatever the clock readings.
\<close>

definition same_server_report :: "wire \<Rightarrow> wire \<Rightarrow> bool" where
  "same_server_report x y =
     (case x of
        Fails _ \<Rightarrow> (case y of Fails _ \<Rightarrow> True | Completes _ \<Rightarrow> False)
      | Completes a \<Rightarrow> (case y of Fails _ \<Rightarrow> False | Completes b \<Rightarrow> res_headers a = res_headers b))"

section \<open>Example runs\<close>

text \<open>
  The mocked transport of the end-to-end examples: a response whose phases are read at
  100, 150 and 200 with a server timing of 10 ms, a download whose transfer takes from
  100 to 600, a world in which nothing has happened yet, and a network on which every
  third request fails.
\<close>

definition mock_exchange :: exchange where
  "mock_exchange =
     \<lparr>at_request = 100, at_lookup = Some 110, at_connect = Some 120, at_secureConnect = Some 130,
      at_readable = Some 150, at_end = 200,
      res_headers = [(''server-timing'', ''cfRequestDuration;dur=10.0'')]\<rparr>"

definition mock_download :: exchange where
  "mock_download =
     \<lparr>at_request = 40, at_lookup = None, at_connect = None, at_secureConnect = None,
      at_readable = Some 100, at_end = 600,
      res_headers = [(''server-timing'', ''cfRequestDuration;dur=25.5'')]\<rparr>"

definition idle_world :: "(nat \<Rightarrow> wire) \<Rightarrow> world" where
  "idle_world n = \<lparr>net = n, sent = [], stderr = [], stdout = [], flushing = True, results = None\<rparr>"

definition every_third_fails :: "nat \<Rightarrow> wire" where
  "every_third_fails k = (if k mod 3 = 2 then Fails ''Error: socket hang up'' else Completes mock_exchange)"

text \<open>
  Two responses that break the contract of the server: one without the timing header,
  one whose timing header names another metric and carries no duration.
\<close>

definition no_timing_header :: exchange where
  "no_timing_header = mock_exchange\<lparr>res_headers := [(''content-length'', ''1000'')]\<rparr>"

definition other_timing_header :: exchange where
  "other_timing_header = mock_exchange\<lparr>res_headers := [(''server-timing'', ''cfExtPri'')]\<rparr>"

text \<open>
  A network on which one exchange only, the third, comes back without the timing header.
\<close>

definition header_missing_once :: "nat \<Rightarrow> wire" where
  "header_missing_once k = (if k = 2 then Completes no_timing_header else Completes mock_exchange)"

text \<open>
  What a trace says, read off its text: a line with a separator is an entry, its key the
  text before the first \<open>=\<close> and its value the text between the first and the second
  (or the end of the line); a line without separator is none.
\<close>

definition line_entry :: "string \<Rightarrow> (string \<times> string) option" where
  "line_entry l =
     (if CHR ''='' \<in> set l
      then Some (takeWhile (\<lambda>c. c \<noteq> CHR ''='') l,
                 takeWhile (\<lambda>c. c \<noteq> CHR ''='') (tl (dropWhile (\<lambda>c. c \<noteq> CHR ''='') l)))
      else None)"

definition trace_entries :: "string \<Rightarrow> (string \<times> string) list" where
  "trace_entries text = List.map_filter line_entry (split_on (CHR 0x0A) text)"

section \<open>The statistics module, for the example runs\<close>

text \<open>
  Modelled from the spec: stats.js is not among the sources. \<open>average(series)\<close> is the
  arithmetic mean. The spec leaves the empty series open (it fails or is undefined);
  the quotient \<open>0 / 0\<close> of the host arithmetic, not-a-number, stands for it here, the
  sentinel that the spec asks of the statistics of an empty series.
\<close>

definition spec_average :: "jsnum list \<Rightarrow> jsnum" where
  "spec_average series = num_div (fold (\<lambda>x s. num_add s x) series (Fin 0)) (Fin (real (length series)))"

text \<open>
  Modelled from the spec: the sorted copy that \<open>median\<close> and \<open>quantile\<close> take of a
  series, by insertion in ascending order of the host's \<open><\<close>.
\<close>

fun insert_number :: "jsnum \<Rightarrow> jsnum list \<Rightarrow> jsnum list" where
  "insert_number x [] = [x]"
| "insert_number x (y # ys) = (if num_less y x then y # insert_number x ys else x # y # ys)"

definition sorted_copy :: "jsnum list \<Rightarrow> jsnum list" where
  "sorted_copy series = foldr insert_number series []"

text \<open>
  Modelled from the spec: \<open>median(series)\<close> sorts a copy of the series; for even length it
  returns the average of the two central elements, for odd length the central element.
  The spec gives no value for the empty series; not-a-number stands for it here.
\<close>

definition spec_median :: "jsnum list \<Rightarrow> jsnum" where
  "spec_median series =
     (let s = sorted_copy series; n = length s
      in if n = 0 then NaN
         else if odd n then s ! (n div 2)
         else num_div (num_add (s ! (n div 2 - 1)) (s ! (n div 2))) (Fin 2))"

text \<open>
  Modelled from the spec: \<open>jitter(series)\<close> is the mean of the absolute differences
  between each consecutive pair of samples in their original order, and 0 for a series
  of one element.
\<close>

fun num_abs :: "jsnum \<Rightarrow> jsnum" where
  "num_abs (Fin x) = Fin \<bar>x\<bar>"
| "num_abs NZero = Fin 0"
| "num_abs PInf = PInf"
| "num_abs NInf = PInf"
| "num_abs NaN = NaN"

definition spec_jitter :: "jsnum list \<Rightarrow> jsnum" where
  "spec_jitter series =
     (if length series = 1 then Fin 0
      else spec_average (map (\<lambda>(a, b). num_abs (num_sub a b)) (zip series (tl series))))"

text \<open>
  Modelled from the spec: \<open>quantile(series, q)\<close> for \<open>0 \<le> q \<le> 1\<close> sorts a copy and
  interpolates linearly between the two nearest ranks at position \<open>q \<times> (n - 1)\<close>. Outside
  that range of \<open>q\<close>, and for the empty series, not-a-number stands for the value the spec
  does not give.
\<close>

definition spec_quantile :: "jsnum list \<Rightarrow> jsnum \<Rightarrow> jsnum" where
  "spec_quantile series q =
     (case q of
        Fin qv \<Rightarrow>
          (let s = sorted_copy series; n = length s
           in if n = 0 \<or> qv < 0 \<or> 1 < qv then NaN
              else
                let pos = qv * real (n - 1);
                    base = nat \<lfloor>pos\<rfloor>;
                    rest = pos - real base
                in if base + 1 < n
                   then num_add (s ! base)
                          (num_mul (Fin rest) (num_sub (s ! (base + 1)) (s ! base)))
                   else s ! base)
      | _ \<Rightarrow> NaN)"

text \<open>
  Modelled from the spec: the statistics module as a whole, none of whose functions
  throws. The printer of huge numbers is the engine's and stays a parameter.
\<close>

definition spec_stats :: "(real \<Rightarrow> string) \<Rightarrow> host" where
  "spec_stats big =
     \<lparr>average = (\<lambda>series. Inr (spec_average series)),
      median = (\<lambda>series. Inr (spec_median series)),
      jitter = (\<lambda>series. Inr (spec_jitter series)),
      quartile = (\<lambda>series q. Inr (spec_quantile series q)),
      number_to_string = big\<rparr>"

text \<open>
  Modelled from the spec: the statistics module with a printer of huge numbers that no
  example run calls.
\<close>

definition example_stats :: host where
  "example_stats = spec_stats (\<lambda>r. ''1e+21'')"

section \<open>Vocabulary of the orchestrator's run\<close>

text \<open>
  The promises of \<open>n\<close> consecutive exchanges of the network, from the one numbered
  \<open>first\<close> on.
\<close>

definition promises_at :: "(nat \<Rightarrow> wire) \<Rightarrow> nat \<Rightarrow> nat \<Rightarrow> transaction promise list" where
  "promises_at nt first n = map (\<lambda>k. settle (nt (first + k))) [0..<n]"

text \<open>
  The sweeps as \<open>speedTest\<close> runs them: label, size in bytes and number of trials of
  each download tier, size and number of trials of each upload tier. The requests of a
  whole run, tier by tier, start with the 20 probes of the latency measurement.
\<close>

definition download_tiers :: "(string \<times> nat \<times> nat) list" where
  "download_tiers =
     [(''100kB'', 101000, 10), (''1MB'', 1001000, 8), (''10MB'', 10001000, 6),
      (''25MB'', 25001000, 4), (''100MB'', 100001000, 1)]"

definition upload_tiers :: "(nat \<times> nat) list" where
  "upload_tiers = [(11000, 10), (101000, 10), (1001000, 8)]"

definition tier_requests :: "http_request list list" where
  "tier_requests =
     replicate 20 (download_options 1000)
     # map (\<lambda>(label, bytes, n). replicate n (download_options bytes)) download_tiers
     @ map (\<lambda>(bytes, n). replicate n (upload_options bytes)) upload_tiers"

definition planned_requests :: "http_request list" where
  "planned_requests = concat tier_requests"

text \<open>
  The promises of the tier numbered \<open>i\<close> (the latency probes are number 0) in a run that
  starts in the world \<open>w\<close>: those of the exchanges that follow the ones already used
  and the ones of the tiers before it. From them, the series of each tier and the overall
  figures of both sweeps.
\<close>

definition tier_promises :: "world \<Rightarrow> nat \<Rightarrow> transaction promise list" where
  "tier_promises w i =
     promises_at (net w) (length (sent w @ concat (take i tier_requests)))
       (length (tier_requests ! i))"

definition latency_series :: "world \<Rightarrow> jsnum list" where
  "latency_series w = map latency_of (resolved (tier_promises w 0))"

definition download_tier_series :: "world \<Rightarrow> jsnum list list" where
  "download_tier_series w =
     map (\<lambda>(i, label, bytes, n). map (download_speed bytes) (resolved (tier_promises w i)))
         (zip [1, 2, 3, 4, 5] download_tiers)"

definition upload_tier_series :: "world \<Rightarrow> jsnum list list" where
  "upload_tier_series w =
     map (\<lambda>(i, bytes, n). map (upload_speed bytes) (resolved (tier_promises w i)))
         (zip [6, 7, 8] upload_tiers)"

definition overall_download :: "host \<Rightarrow> world \<Rightarrow> error + jsnum" where
  "overall_download h w = quartile h (concat (download_tier_series w)) (Fin (9 / 10))"

definition overall_upload :: "host \<Rightarrow> world \<Rightarrow> error + jsnum" where
  "overall_upload h w = quartile h (concat (upload_tier_series w)) (Fin (9 / 10))"

text \<open>
  JSON mode is asked for by the argument \<open>--json\<close>. The report of a run that started
  in the world \<open>w\<close>, given the locations and the trace that the two fetches returned.
\<close>

definition json_mode :: "string list \<Rightarrow> bool" where
  "json_mode argv = (''--json'' \<in> set (drop 2 argv))"

definition expected_report ::
  "host \<Rightarrow> (string \<times> string) list \<Rightarrow> string \<Rightarrow> world \<Rightarrow> report" where
  "expected_report h res tx w =
     (let fixed = (\<lambda>r. toFixed (number_to_string h) 2 (projr r));
          trace = parseCfCdnCgiTrace tx;
          colo = template_of (trace ''colo'')
      in \<lparr>server_location =
             template_of (obj_get (fetchServerLocationData res) colo) @ '' ('' @ colo @ '')'',
           your_ip = template_of (trace ''ip'') @ '' ('' @ template_of (trace ''loc'') @ '')'',
           latency =
             \<lparr>min_ms = fixed (Inr (Math_min (latency_series w))),
              max_ms = fixed (Inr (Math_max (latency_series w))),
              average_ms = fixed (average h (latency_series w)),
              median_ms = fixed (median h (latency_series w)),
              jitter_ms = fixed (jitter h (latency_series w))\<rparr>,
           download_speeds =
             map (\<lambda>((label, bytes, n), series). \<lparr>size_label = label, speed = fixed (median h series)\<rparr>)
                 (zip download_tiers (download_tier_series w))
             @ [\<lparr>size_label = ''overall'', speed = fixed (overall_download h w)\<rparr>],
           upload_speeds = [\<lparr>size_label = ''overall'', speed = fixed (overall_upload h w)\<rparr>]\<rparr>)"

text \<open>
  What a run printed last, when that is a JSON document: the report of JSON mode.
\<close>

definition json_report :: "error + world \<Rightarrow> report option" where
  "json_report run =
     (case run of
        Inl e \<Rightarrow> None
      | Inr w \<Rightarrow>
          (case rev (stdout w) of
             JsonDoc r # earlier \<Rightarrow> Some r
           | _ \<Rightarrow> None))"

section \<open>Properties\<close>

subsection \<open>Arithmetic on moderate numbers\<close>

text \<open>
  A product or quotient of magnitude between \<open>10\<^sup>-\<^sup>1\<^sup>5\<close> and \<open>10\<^sup>1\<^sup>5\<close> neither overflows nor
  underflows.
\<close>

lemma nearest_bounds: "(10::real) ^ 15 < 2 ^ 1024 - 2 ^ 970" "1 / (2::real) ^ 1075 < 1 / 10 ^ 15"
proof -
  have a: "(2::real) ^ 970 \<le> 2 ^ 1023" by (rule power_increasing) simp_all
  have b: "(2::real) ^ 50 \<le> 2 ^ 1023" by (rule power_increasing) simp_all
  have c: "(2::real) ^ 1024 = 2 * 2 ^ 1023" by simp
  have d: "(10::real) ^ 15 < 2 ^ 50" by simp
  from a b c d show "(10::real) ^ 15 < 2 ^ 1024 - 2 ^ 970" by linarith
  have e: "(2::real) ^ 50 \<le> 2 ^ 1075" by (rule power_increasing) simp_all
  with d have "(10::real) ^ 15 < 2 ^ 1075" by linarith
  then show "1 / (2::real) ^ 1075 < 1 / 10 ^ 15"
    by (simp add: frac_less2 del: power_numeral)
qed

lemma zero_of_simps [simp]: "zero_of True = Fin 0" "zero_of False = NZero"
  by (simp_all add: zero_of_def)

lemma inf_of_simps [simp]: "inf_of True = PInf" "inf_of False = NInf"
  by (simp_all add: inf_of_def)

lemma nearest_not_NaN [simp]: "nearest x \<noteq> NaN"
  by (simp add: nearest_def zero_of_def inf_of_def)

lemma nearest_0 [simp]: "nearest 0 = Fin 0"
  by (simp add: nearest_def zero_of_def)

lemma nearest_moderate [simp]:
  "1 / 10 ^ 15 \<le> \<bar>x\<bar> \<Longrightarrow> \<bar>x\<bar> \<le> 10 ^ 15 \<Longrightarrow> nearest x = Fin x"
  using nearest_bounds unfolding nearest_def by (auto simp del: power_numeral)

lemma num_sub_Fin [simp]: "num_sub (Fin a) (Fin b) = Fin (a - b)"
  by (simp add: num_sub_def)

lemma num_mul_NaN [simp]: "num_mul NaN b = NaN" "num_mul a NaN = NaN"
  by (simp_all add: num_mul_def)

lemma num_div_NaN [simp]: "num_div NaN b = NaN" "num_div a NaN = NaN"
  by (simp_all add: num_div_def)

lemma num_mul_Fin [simp]:
  "x \<noteq> 0 \<Longrightarrow> y \<noteq> 0 \<Longrightarrow> num_mul (Fin x) (Fin y) = nearest (x * y)"
  by (simp add: num_mul_def is_zero_def is_inf_def num_val_def)

lemma num_div_Fin [simp]:
  "x \<noteq> 0 \<Longrightarrow> y \<noteq> 0 \<Longrightarrow> num_div (Fin x) (Fin y) = nearest (x / y)"
  by (simp add: num_div_def is_zero_def is_inf_def num_val_def)

lemma num_mul_zero [simp]:
  "num_mul (Fin 0) (Fin y) = zero_of (0 \<le> y)" "num_mul (Fin x) (Fin 0) = zero_of (0 \<le> x)"
  by (auto simp add: num_mul_def is_zero_def is_inf_def is_neg_def zero_of_def)

lemma num_div_zero [simp]:
  "num_div (Fin x) (Fin 0) = (if x = 0 then NaN else inf_of (0 < x))"
  "y \<noteq> 0 \<Longrightarrow> num_div (Fin 0) (Fin y) = zero_of (0 < y)"
  by (auto simp add: num_div_def is_zero_def is_inf_def is_neg_def zero_of_def inf_of_def)

lemma nearest_in_range: "in_double_range x \<Longrightarrow> nearest x = Fin x"
  by (simp add: in_double_range_def nearest_def del: power_numeral)

lemma in_double_range_moderate:
  "1 / 10 ^ 15 \<le> \<bar>x\<bar> \<Longrightarrow> \<bar>x\<bar> \<le> 10 ^ 15 \<Longrightarrow> in_double_range x"
  using nearest_bounds unfolding in_double_range_def by (auto simp del: power_numeral)

lemma in_double_range_nonzero: "in_double_range x \<Longrightarrow> x \<noteq> 0"
  by (auto simp add: in_double_range_def)

lemma num_div_inf:
  "0 < y \<Longrightarrow> num_div PInf (Fin y) = PInf" "0 < y \<Longrightarrow> num_div NInf (Fin y) = NInf"
  by (simp_all add: num_div_def is_zero_def is_inf_def is_neg_def)

lemma num_val_simps [simp]: "num_val (Fin v) = v" "num_val NZero = 0"
  by (simp_all add: num_val_def)

lemma toFixed_Fin:
  "toFixed big f (Fin r) =
     (if r < 0 then ''-'' else []) @
     (if 10 ^ 21 \<le> \<bar>r\<bar> then big \<bar>r\<bar>
      else
        let n = nat \<lfloor>\<bar>r\<bar> * 10 ^ f + 1 / 2\<rfloor>;
            m = show_nat n;
            z = (if length m \<le> f then replicate (f + 1 - length m) (CHR ''0'') @ m else m)
        in if f \<noteq> 0 then take (length z - f) z @ ''.'' @ drop (length z - f) z else m)"
  by (simp add: toFixed_def Let_def)

subsection \<open>The loop of the trial runners\<close>

lemma outcomes_0: "outcomes w 0 = []"
  by (simp add: outcomes_def)

lemma outcomes_Suc:
  "outcomes w (Suc n) =
     settle (net w (length (sent w))) # outcomes (w\<lparr>sent := sent w @ [rq]\<rparr>) n"
  by (simp add: outcomes_def upt_conv_Cons map_Suc_upt[symmetric] del: upt_Suc)

lemma outcomes_stderr: "outcomes (w\<lparr>stderr := l\<rparr>) n = outcomes w n"
  by (simp add: outcomes_def)

text \<open>
  The loop runs every remaining trial unless a handler throws: it appends the measurement
  of each resolved transaction, in order, and logs one line for each rejected one.
\<close>

lemma trials_request:
  "trials (request rq) f i n ms w =
     (case first_uncaught (outcomes w (n - i)) of
        Some e \<Rightarrow> Inl e
      | None \<Rightarrow>
          Inr (ms @ map f (resolved (outcomes w (n - i))),
               w\<lparr>sent := sent w @ replicate (n - i) rq,
                 stderr := stderr w @ map (\<lambda>e. ''Error: '' @ e) (rejected (outcomes w (n - i)))\<rparr>))"
proof (induction "n - i" arbitrary: i ms w)
  case 0
  then show ?case by (simp add: trials.simps outcomes_0)
next
  case (Suc d)
  then have lt: "i < n" and d: "d = n - (i + 1)" and ni: "n - i = Suc d" by simp_all
  show ?case
  proof (cases "settle (net w (length (sent w)))")
    case (Resolved r)
    then show ?thesis
      using Suc.hyps(1)[OF d, of "ms @ [f r]" "w\<lparr>sent := sent w @ [rq]\<rparr>"] lt d
      by (subst trials.simps)
         (simp add: request_def ni outcomes_Suc[where rq=rq] replicate_app_Cons_same
               split: option.splits)
  next
    case (Rejected e)
    then show ?thesis
      using Suc.hyps(1)[OF d, of "ms"
              "w\<lparr>sent := sent w @ [rq], stderr := stderr w @ [''Error: '' @ e]\<rparr>"] lt d
      by (subst trials.simps)
         (simp add: request_def ni outcomes_Suc[where rq=rq] outcomes_stderr
               replicate_app_Cons_same split: option.splits)
  next
    case (Uncaught e)
    then show ?thesis
      using lt
      by (subst trials.simps) (simp add: request_def ni outcomes_Suc[where rq=rq])
  qed
qed

lemma first_uncaught_None: "first_uncaught ps = None \<longleftrightarrow> (\<forall>p\<in>set ps. settles p)"
  by (induction ps rule: first_uncaught.induct) auto

lemma length_resolved: "length (resolved ps) \<le> length ps"
  by (induction ps rule: resolved.induct) auto

lemma length_outcomes: "length (outcomes w n) = n"
  by (simp add: outcomes_def)

lemma all_rejected:
  "(\<forall>p\<in>set ps. \<exists>e. p = Rejected e) \<Longrightarrow>
     resolved ps = [] \<and> first_uncaught ps = None \<and> length (rejected ps) = length ps"
  by (induction ps rule: resolved.induct) auto

lemma parseFloat_10: "parseFloat ''10.0'' = Fin 10"
  by (simp add: parseFloat_def str_unsigned_def is_space_def is_digit_def digits_val_def
        digit_val_def pow10_def exponent_part_def)

lemma parseFloat_25: "parseFloat ''25.5'' = Fin (51 / 2)"
  by (simp add: parseFloat_def str_unsigned_def is_space_def is_digit_def digits_val_def
        digit_val_def pow10_def exponent_part_def)

lemma settle_mock_exchange:
  "settle (Completes mock_exchange) =
     Resolved \<lparr>started = 100, dnsLookup = Some 110, tcpHandshake = Some 120,
               sslHandshake = Some 130, ttfb = Some 150, ended = 200, serverTiming = Fin 10\<rparr>"
  by (simp add: settle_def mock_exchange_def parseFloat_10)

lemma settle_mock_download:
  "settle (Completes mock_download) =
     Resolved \<lparr>started = 40, dnsLookup = None, tcpHandshake = None,
               sslHandshake = None, ttfb = Some 100, ended = 600, serverTiming = Fin (51 / 2)\<rparr>"
  by (simp add: settle_def mock_download_def parseFloat_25)

lemma measureDownload_Inr:
  "measureDownload bytes n w = Inr (ms, w') \<Longrightarrow>
     ms = map (download_speed bytes) (resolved (outcomes w n))"
  by (simp add: measureDownload_def download_def trials_request split: option.splits)

lemma settle_same_server_report:
  "same_server_report x y \<Longrightarrow>
     (case settle x of
        Resolved a \<Rightarrow> (case settle y of Resolved b \<Rightarrow> serverTiming a = serverTiming b | _ \<Rightarrow> False)
      | Rejected _ \<Rightarrow> (case settle y of Rejected _ \<Rightarrow> True | _ \<Rightarrow> False)
      | Uncaught e \<Rightarrow> settle y = Uncaught e)"
  by (auto simp: same_server_report_def settle_def split: wire.splits option.splits)

lemma same_server_report_series:
  "list_all2 same_server_report xs ys \<Longrightarrow>
     first_uncaught (map settle xs) = first_uncaught (map settle ys)
     \<and> map (upload_speed bytes) (resolved (map settle xs)) =
        map (upload_speed bytes) (resolved (map settle ys))"
proof (induction xs ys rule: list_all2_induct)
  case Nil
  then show ?case by simp
next
  case (Cons x xs y ys)
  from settle_same_server_report[OF Cons.hyps(1)] Cons.IH show ?case
    by (cases "settle x"; cases "settle y") (simp_all add: upload_speed_def)
qed

lemma outcomes_map: "outcomes w n = map settle (map (\<lambda>k. net w (length (sent w) + k)) [0..<n])"
  by (simp add: outcomes_def)

lemma measureUpload_Inr:
  "measureUpload bytes n w = Inr (ms, w') \<Longrightarrow>
     ms = map (upload_speed bytes) (resolved (outcomes w n))"
  by (simp add: measureUpload_def upload_def trials_request split: option.splits)

subsection \<open>The server timing header\<close>

lemma num_neg_NaN: "num_neg x = NaN \<longleftrightarrow> x = NaN"
  by (cases x) simp_all

lemma str_unsigned_NaN:
  "str_unsigned u = NaN \<longleftrightarrow>
     \<not> (take 8 u = ''Infinity'' \<or>
        (case u of
           [] \<Rightarrow> False
         | c # r \<Rightarrow> is_digit c \<or> (c = CHR ''.'' \<and> (case r of [] \<Rightarrow> False | d # _ \<Rightarrow> is_digit d))))"
proof (cases u)
  case Nil
  then show ?thesis by (simp add: str_unsigned_def)
next
  case (Cons c r)
  show ?thesis
  proof (cases "is_digit c")
    case True
    with Cons show ?thesis by (simp add: str_unsigned_def Let_def)
  next
    case False
    have nd: "\<not> is_digit (CHR ''.'')" by (simp add: is_digit_def)
    from False Cons show ?thesis
      by (cases r) (auto simp add: str_unsigned_def Let_def nd)
  qed
qed

lemma parseFloat_NaN: "parseFloat s = NaN \<longleftrightarrow> \<not> starts_number s"
proof (cases "dropWhile is_space s")
  case Nil
  show ?thesis unfolding parseFloat_def starts_number_def Nil by simp
next
  case (Cons c u)
  show ?thesis unfolding parseFloat_def starts_number_def Cons
    by (simp add: num_neg_NaN str_unsigned_NaN)
qed

lemma settle_no_timing_header: "settle (Completes no_timing_header) = Uncaught TypeError"
  by (simp add: settle_def no_timing_header_def mock_exchange_def)

subsection \<open>The trace parser\<close>

lemma split_on_not_Nil: "split_on c s \<noteq> []"
  by (induction s) (auto split: list.splits)

lemma hd_split_on: "hd (split_on c s) = takeWhile (\<lambda>x. x \<noteq> c) s"
  using split_on_not_Nil[of c]
  by (induction s) (auto split: list.splits)

lemma tl_split_on:
  "tl (split_on c s) = (if c \<in> set s then split_on c (tl (dropWhile (\<lambda>x. x \<noteq> c) s)) else [])"
  using split_on_not_Nil[of c]
  by (induction s) (auto split: list.splits)

lemma key_value_eq:
  "key_value i = (takeWhile (\<lambda>c. c \<noteq> CHR ''='') i, map_option snd (line_entry i))"
proof -
  let ?j = "split_on (CHR ''='') i"
  obtain p ps where j: "?j = p # ps"
    using split_on_not_Nil[of "CHR ''=''" i] by (cases ?j) auto
  have p: "p = takeWhile (\<lambda>c. c \<noteq> CHR ''='') i"
    using hd_split_on[of "CHR ''=''" i] j by simp
  have ps: "ps = (if CHR ''='' \<in> set i
                  then split_on (CHR ''='') (tl (dropWhile (\<lambda>x. x \<noteq> CHR ''='') i)) else [])"
    using tl_split_on[of "CHR ''=''" i] j by simp
  show ?thesis
  proof (cases "CHR ''='' \<in> set i")
    case True
    let ?r = "tl (dropWhile (\<lambda>x. x \<noteq> CHR ''='') i)"
    obtain q qs where q: "split_on (CHR ''='') ?r = q # qs"
      using split_on_not_Nil[of "CHR ''=''" ?r] by (cases "split_on (CHR ''='') ?r") auto
    have "q = takeWhile (\<lambda>c. c \<noteq> CHR ''='') ?r"
      using hd_split_on[of "CHR ''=''" ?r] q by simp
    with True j p ps q show ?thesis
      by (simp add: key_value_def line_entry_def)
  next
    case False
    with j p ps show ?thesis
      by (simp add: key_value_def line_entry_def)
  qed
qed

lemma fold_assign:
  "fold (\<lambda>(k, v) data. case v of None \<Rightarrow> data | Some v' \<Rightarrow> obj_assign data k v') kvs m k =
     (if k = ''__proto__'' then m k
      else case map_of (rev (List.map_filter (\<lambda>(a, b). map_option (Pair a) b) kvs)) k of
             Some v \<Rightarrow> Some v
           | None \<Rightarrow> m k)"
proof (induction kvs arbitrary: m)
  case Nil
  then show ?case by (simp add: List.map_filter_simps)
next
  case (Cons kv kvs)
  obtain a b where kv: "kv = (a, b)" by (cases kv)
  show ?case
  proof (cases b)
    case None
    with kv Cons.IH[of m] show ?thesis
      by (simp add: List.map_filter_simps)
  next
    case (Some v)
    with kv Cons.IH[of "obj_assign m a v"] show ?thesis
      by (auto simp add: List.map_filter_simps obj_assign_def map_of_append
            split: option.splits)
  qed
qed

lemma map_filter_key_value:
  "List.map_filter (\<lambda>(a, b). map_option (Pair a) b) (map key_value ls) =
     List.map_filter line_entry ls"
proof -
  have step: "(\<lambda>(a, b). map_option (Pair a) b) (key_value l) = line_entry l" for l
    by (simp add: key_value_eq line_entry_def)
  show ?thesis
    by (induction ls) (simp_all add: List.map_filter_simps step split: option.splits)
qed

subsection \<open>The statistics of the spec on small series\<close>

lemma spec_median_odd: "spec_median [Fin 1, Fin 2, Fin 3, Fin 4, Fin 5] = Fin 3"
  by (simp add: spec_median_def sorted_copy_def)

lemma spec_median_even: "spec_median [Fin 4, Fin 2, Fin 3, Fin 1] = Fin (5 / 2)"
  by (simp add: spec_median_def sorted_copy_def)

lemma spec_jitter_constant: "spec_jitter [Fin 10, Fin 10, Fin 10] = Fin 0"
  by (simp add: spec_jitter_def spec_average_def num_sub_def)

lemma spec_jitter_pair: "spec_jitter [Fin 10, Fin 20] = Fin 10"
  by (simp add: spec_jitter_def spec_average_def num_sub_def)

lemma spec_quantile_interpolates: "spec_quantile [Fin 4, Fin 2, Fin 3, Fin 1] (Fin (9 / 10)) = Fin (37 / 10)"
  by (simp add: spec_quantile_def sorted_copy_def num_sub_def)

subsection \<open>The run of the orchestrator\<close>

lemma outcomes_promises_at: "outcomes w n = promises_at (net w) (length (sent w)) n"
  by (simp add: outcomes_def promises_at_def)

lemma then_doE:
  assumes "then_do m f = Inr y"
  obtains x where "m = Inr x" and "f x = Inr y"
  using assms by (cases m) (simp_all add: then_do_def)

lemma then_do_pairE:
  assumes "then_do m (\<lambda>(a, b). f a b) = Inr y"
  obtains a b where "m = Inr (a, b)" and "f a b = Inr y"
  using assms by (cases m) (auto simp add: then_do_def)

lemma trials_InrD:
  "trials (request rq) f 0 n [] w = Inr (ms, w1) \<Longrightarrow>
     ms = map f (resolved (promises_at (net w) (length (sent w)) n))
     \<and> first_uncaught (promises_at (net w) (length (sent w)) n) = None
     \<and> net w1 = net w \<and> sent w1 = sent w @ replicate n rq
     \<and> stdout w1 = stdout w \<and> flushing w1 = flushing w \<and> results w1 = results w"
  by (auto simp add: trials_request outcomes_promises_at split: option.splits)

lemma measureDownload_InrD:
  "measureDownload bytes n w = Inr (ms, w1) \<Longrightarrow>
     ms = map (download_speed bytes) (resolved (promises_at (net w) (length (sent w)) n))
     \<and> first_uncaught (promises_at (net w) (length (sent w)) n) = None
     \<and> net w1 = net w \<and> sent w1 = sent w @ replicate n (download_options bytes)
     \<and> stdout w1 = stdout w \<and> flushing w1 = flushing w \<and> results w1 = results w"
  unfolding measureDownload_def download_def by (rule trials_InrD)

lemma measureUpload_InrD:
  "measureUpload bytes n w = Inr (ms, w1) \<Longrightarrow>
     ms = map (upload_speed bytes) (resolved (promises_at (net w) (length (sent w)) n))
     \<and> first_uncaught (promises_at (net w) (length (sent w)) n) = None
     \<and> net w1 = net w \<and> sent w1 = sent w @ replicate n (upload_options bytes)
     \<and> stdout w1 = stdout w \<and> flushing w1 = flushing w \<and> results w1 = results w"
  unfolding measureUpload_def upload_def by (rule trials_InrD)

lemma measureLatency_InrD:
  "measureLatency h w = Inr (ping, w1) \<Longrightarrow>
     (\<exists>a m j. average h (map latency_of (resolved (promises_at (net w) (length (sent w)) 20))) = Inr a
        \<and> median h (map latency_of (resolved (promises_at (net w) (length (sent w)) 20))) = Inr m
        \<and> jitter h (map latency_of (resolved (promises_at (net w) (length (sent w)) 20))) = Inr j
        \<and> ping = [Math_min (map latency_of (resolved (promises_at (net w) (length (sent w)) 20))),
                   Math_max (map latency_of (resolved (promises_at (net w) (length (sent w)) 20))),
                   a, m, j])
     \<and> first_uncaught (promises_at (net w) (length (sent w)) 20) = None
     \<and> net w1 = net w \<and> sent w1 = sent w @ replicate 20 (download_options 1000)
     \<and> stdout w1 = stdout w \<and> flushing w1 = flushing w \<and> results w1 = results w"
  unfolding measureLatency_def latencyMeasurements_def download_def
  by (elim then_do_pairE then_doE) (auto dest!: trials_InrD)

lemma dash_json: "take 2 x = ''--'' \<and> drop 2 x = ''json'' \<longleftrightarrow> x = ''--json''"
proof
  assume "take 2 x = ''--'' \<and> drop 2 x = ''json''"
  then have "take 2 x @ drop 2 x = ''--json''" by simp
  then show "x = ''--json''" by (simp only: append_take_drop_id)
next
  assume "x = ''--json''"
  then show "take 2 x = ''--'' \<and> drop 2 x = ''json''" by simp
qed

lemma parseArgs_fold:
  "fold (\<lambda>arg args. if take 2 arg = ''--'' then obj_assign args (drop 2 arg) True else args) xs m
     ''json'' = Some True \<longleftrightarrow> ''--json'' \<in> set xs \<or> m ''json'' = Some True"
proof (induction xs arbitrary: m)
  case Nil
  then show ?case by simp
next
  case (Cons x xs)
  let ?f = "\<lambda>arg args. if take 2 arg = ''--'' then obj_assign args (drop 2 arg) True else args"
  show ?case
  proof (cases "x = ''--json''")
    case True
    have step: "fold ?f (x # xs) m = fold ?f xs (m(''json'' \<mapsto> True))"
      by (simp add: True obj_assign_def)
    show ?thesis unfolding step Cons.IH by (simp add: True)
  next
    case False
    have "fold ?f (x # xs) m ''json'' = Some True \<longleftrightarrow> fold ?f xs (?f x m) ''json'' = Some True"
      by simp
    also have "\<dots> \<longleftrightarrow> ''--json'' \<in> set xs \<or> ?f x m ''json'' = Some True"
      by (rule Cons.IH)
    also have "?f x m ''json'' = Some True \<longleftrightarrow> m ''json'' = Some True"
      using False dash_json[of x] by (auto simp add: obj_assign_def)
    finally show ?thesis using False by auto
  qed
qed

lemma parseArgs_json: "parseArgs argv ''json'' = Some True \<longleftrightarrow> json_mode argv"
  by (simp add: parseArgs_def parseArgs_fold json_mode_def)

lemma speedTest_Inr:
  assumes "speedTest h argv locations trace_text w0 = Inr w'"
  shows "locations = Inr (projr locations) \<and> trace_text = Inr (projr trace_text)
    \<and> average h (latency_series w0) = Inr (projr (average h (latency_series w0)))
    \<and> median h (latency_series w0) = Inr (projr (median h (latency_series w0)))
    \<and> jitter h (latency_series w0) = Inr (projr (jitter h (latency_series w0)))
    \<and> list_all (\<lambda>s. median h s = Inr (projr (median h s))) (download_tier_series w0)
    \<and> overall_download h w0 = Inr (projr (overall_download h w0))
    \<and> overall_upload h w0 = Inr (projr (overall_upload h w0))
    \<and> sent w' = sent w0 @ planned_requests
    \<and> (if json_mode argv
        then stdout w' = stdout w0 @
               [JsonDoc (expected_report h (projr locations) (projr trace_text) w0)]
        else results w' = Some ((expected_report h (projr locations) (projr trace_text) w0)
                                  \<lparr>download_speeds := [], upload_speeds := []\<rparr>)
             \<and> drop (length (stdout w0) + 9) (stdout w') =
                 [Styled [''  Download speed:'',
                          toFixed (number_to_string h) 2 (projr (overall_download h w0)), ''Mbps''],
                  Styled [''    Upload speed:'',
                          toFixed (number_to_string h) 2 (projr (overall_upload h w0)), ''Mbps'']])"
proof (cases "json_mode argv")
  case True
  with assms show ?thesis
    unfolding speedTest_def Let_def parseArgs_json
    apply (elim then_do_pairE then_doE)
    apply (clarsimp simp: logInfo_def logLatency_def logSpeedTestResult_def logDownloadSpeed_def
        logUploadSpeed_def
        simp del: length_append length_replicate
        dest!: measureLatency_InrD measureDownload_InrD measureUpload_InrD elim!: then_doE
        split: option.splits)
    apply (simp add: latency_series_def download_tier_series_def upload_tier_series_def
        tier_promises_def tier_requests_def overall_download_def overall_upload_def
        planned_requests_def download_tiers_def upload_tiers_def expected_report_def Let_def)
    done
next
  case False
  with assms show ?thesis
    unfolding speedTest_def Let_def parseArgs_json
    apply (elim then_do_pairE then_doE)
    apply (clarsimp simp: logInfo_def logLatency_def logSpeedTestResult_def logDownloadSpeed_def
        logUploadSpeed_def
        simp del: length_append length_replicate
        dest!: measureLatency_InrD measureDownload_InrD measureUpload_InrD elim!: then_doE
        split: option.splits)
    apply (simp add: latency_series_def download_tier_series_def upload_tier_series_def
        tier_promises_def tier_requests_def overall_download_def overall_upload_def
        planned_requests_def download_tiers_def upload_tiers_def expected_report_def Let_def)
    done
qed

lemma first_uncaught_promises_at:
  "(\<And>k. settles (settle (nt k))) \<Longrightarrow> first_uncaught (promises_at nt a n) = None"
  by (simp add: first_uncaught_None promises_at_def)

lemma trials_returns:
  assumes "\<And>k. settles (settle (net w k))"
  shows "trials (request rq) f 0 n [] w =
     Inr (map f (resolved (promises_at (net w) (length (sent w)) n)),
          w\<lparr>sent := sent w @ replicate n rq,
            stderr := stderr w @ map (\<lambda>e. ''Error: '' @ e)
                        (rejected (promises_at (net w) (length (sent w)) n))\<rparr>)"
  using first_uncaught_promises_at[of "net w" "length (sent w)" n, OF assms]
  by (simp add: trials_request outcomes_promises_at)

lemma speedTest_returns:
  assumes net: "\<And>k. settles (settle (net w0 k))"
    and av: "\<And>s. \<exists>a. average h s = Inr a"
    and md: "\<And>s. \<exists>a. median h s = Inr a"
    and ji: "\<And>s. \<exists>a. jitter h s = Inr a"
    and qu: "\<And>s. \<exists>a. quartile h s (Fin (9 / 10)) = Inr a"
  shows "\<exists>w'. speedTest h argv (Inr res) (Inr tx) w0 = Inr w'"
proof -
  from av obtain fa where fa: "\<And>s. average h s = Inr (fa s)" by metis
  from md obtain fm where fm: "\<And>s. median h s = Inr (fm s)" by metis
  from ji obtain fj where fj: "\<And>s. jitter h s = Inr (fj s)" by metis
  from qu obtain fq where fq: "\<And>s. quartile h s (Fin (9 / 10)) = Inr (fq s)" by metis
  show ?thesis
    unfolding speedTest_def Let_def measureLatency_def latencyMeasurements_def
      measureDownload_def measureUpload_def download_def upload_def
    by (simp add: trials_returns net then_do_def fa fm fj fq logInfo_def logLatency_def
        logSpeedTestResult_def logDownloadSpeed_def logUploadSpeed_def)
qed

lemma promises_at_const: "promises_at (\<lambda>k. x) a n = replicate n (settle x)"
  by (simp add: promises_at_def map_replicate_const)

lemma resolved_replicate: "resolved (replicate n (Resolved t)) = replicate n t"
  by (induction n) simp_all

lemma tier_promises_const:
  "net w = (\<lambda>k. x) \<Longrightarrow> tier_promises w i = replicate (length (tier_requests ! i)) (settle x)"
  by (simp add: tier_promises_def promises_at_const)

lemma tier_lengths:
  "map length tier_requests = [20, 10, 8, 6, 4, 1, 10, 10, 8]"
  by (simp add: tier_requests_def download_tiers_def upload_tiers_def)

lemma download_series_mock:
  "download_tier_series (idle_world (\<lambda>k. Completes mock_download)) =
     [replicate 10 (Fin (1616 / 1000)), replicate 8 (Fin (16016 / 1000)),
      replicate 6 (Fin (160016 / 1000)), replicate 4 (Fin (400016 / 1000)),
      replicate 1 (Fin (1600016 / 1000))]"
proof -
  have n: "net (idle_world (\<lambda>k. Completes mock_download)) = (\<lambda>k. Completes mock_download)"
    by (simp add: idle_world_def)
  show ?thesis
    unfolding download_tier_series_def tier_promises_const[OF n] settle_mock_download
      resolved_replicate
    by (simp add: download_tiers_def tier_requests_def upload_tiers_def download_speed_def
        measureSpeed_def num_sub_def to_number_def)
qed

lemma upload_series_mock:
  "upload_tier_series (idle_world (\<lambda>k. Completes mock_download)) =
     [replicate 10 (Fin (11000 * 8 / (51 / 2000) / 1000000)),
      replicate 10 (Fin (101000 * 8 / (51 / 2000) / 1000000)),
      replicate 8 (Fin (1001000 * 8 / (51 / 2000) / 1000000))]"
proof -
  have n: "net (idle_world (\<lambda>k. Completes mock_download)) = (\<lambda>k. Completes mock_download)"
    by (simp add: idle_world_def)
  show ?thesis
    unfolding upload_tier_series_def tier_promises_const[OF n] settle_mock_download
      resolved_replicate
    by (simp add: download_tiers_def tier_requests_def upload_tiers_def upload_speed_def
        measureSpeed_def)
qed

lemma overall_download_mock:
  "spec_quantile (concat [replicate 10 (Fin (1616 / 1000)), replicate 8 (Fin (16016 / 1000)),
      replicate 6 (Fin (160016 / 1000)), replicate 4 (Fin (400016 / 1000)),
      replicate 1 (Fin (1600016 / 1000))]) (Fin (9 / 10)) = Fin (400016 / 1000)"
  by (simp add: spec_quantile_def sorted_copy_def num_sub_def eval_nat_numeral)

lemma overall_upload_mock:
  "spec_quantile (concat [replicate 10 (Fin (11000 * 8 / (51 / 2000) / 1000000)),
      replicate 10 (Fin (101000 * 8 / (51 / 2000) / 1000000)),
      replicate 8 (Fin (1001000 * 8 / (51 / 2000) / 1000000))]) (Fin (9 / 10)) =
     Fin (16016 / 51)"
  by (simp add: spec_quantile_def sorted_copy_def num_sub_def eval_nat_numeral)

lemma toFixed_overall_mock:
  "toFixed big 2 (Fin (50002 / 125)) = ''400.02''"
  "toFixed big 2 (Fin (16016 / 51)) = ''314.04''"
  by (simp_all add: toFixed_Fin show_nat.simps digit_char_def)

lemma host_spec_stats:
  "average (spec_stats big) s = Inr (spec_average s)"
  "median (spec_stats big) s = Inr (spec_median s)"
  "jitter (spec_stats big) s = Inr (spec_jitter s)"
  "quartile (spec_stats big) s q = Inr (spec_quantile s q)"
  "number_to_string (spec_stats big) = big"
  by (simp_all add: spec_stats_def)

subsection \<open>Trials that settle\<close>

text \<open>
  When every trial settles, \<open>measureDownload\<close> runs all \<open>n\<close> trials, logs one line for
  each rejected one and returns the measurements of the resolved ones, in their order.
  Ten trials of which every third is rejected give seven measurements.
\<close>

lemma measureDownload_settled:
  "((\<forall>p\<in>set (outcomes w n). settles p) \<longrightarrow>
      measureDownload bytes n w =
        Inr (map (download_speed bytes) (resolved (outcomes w n)),
             w\<lparr>sent := sent w @ replicate n (download_options bytes),
               stderr := stderr w @ map (\<lambda>e. ''Error: '' @ e) (rejected (outcomes w n))\<rparr>)
      \<and> length (resolved (outcomes w n)) \<le> n)
   \<and> ((\<forall>p\<in>set (outcomes w n). \<exists>e. p = Rejected e) \<longrightarrow>
      measureDownload bytes n w =
        Inr ([], w\<lparr>sent := sent w @ replicate n (download_options bytes),
                   stderr := stderr w @ map (\<lambda>e. ''Error: '' @ e) (rejected (outcomes w n))\<rparr>)
      \<and> length (rejected (outcomes w n)) = n)"
proof (intro conjI impI)
  assume a: "\<forall>p\<in>set (outcomes w n). settles p"
  then have "first_uncaught (outcomes w n) = None" by (simp add: first_uncaught_None)
  then show "measureDownload bytes n w =
        Inr (map (download_speed bytes) (resolved (outcomes w n)),
             w\<lparr>sent := sent w @ replicate n (download_options bytes),
               stderr := stderr w @ map (\<lambda>e. ''Error: '' @ e) (rejected (outcomes w n))\<rparr>)"
    by (simp add: measureDownload_def download_def trials_request)
  show "length (resolved (outcomes w n)) \<le> n"
    using length_resolved[of "outcomes w n"] by (simp add: length_outcomes)
next
  assume a: "\<forall>p\<in>set (outcomes w n). \<exists>e. p = Rejected e"
  from all_rejected[OF a]
  show "measureDownload bytes n w =
        Inr ([], w\<lparr>sent := sent w @ replicate n (download_options bytes),
                   stderr := stderr w @ map (\<lambda>e. ''Error: '' @ e) (rejected (outcomes w n))\<rparr>)"
    by (simp add: measureDownload_def download_def trials_request)
  from all_rejected[OF a] show "length (rejected (outcomes w n)) = n"
    by (simp add: length_outcomes)
qed

lemma measureDownload_every_third_fails:
  "measureDownload 1000 10 (idle_world every_third_fails) =
     Inr (replicate 7 (Fin (4 / 25)),
          (idle_world every_third_fails)
            \<lparr>sent := replicate 10 (download_options 1000),
              stderr := replicate 3 ''Error: Error: socket hang up''\<rparr>)
   \<and> measureDownload 1000 10 (idle_world (\<lambda>k. Fails ''Error: socket hang up'')) =
     Inr ([], (idle_world (\<lambda>k. Fails ''Error: socket hang up''))
            \<lparr>sent := replicate 10 (download_options 1000),
              stderr := replicate 10 ''Error: Error: socket hang up''\<rparr>)"
proof -
  let ?w = "idle_world every_third_fails"
  let ?v = "idle_world (\<lambda>k. Fails ''Error: socket hang up'')"
  let ?r = "\<lparr>started = 100, dnsLookup = Some 110, tcpHandshake = Some 120,
             sslHandshake = Some 130, ttfb = Some 150, ended = 200, serverTiming = Fin 10\<rparr>"
  let ?e = "Rejected ''Error: socket hang up'' :: transaction promise"
  let ?l = "''Error: Error: socket hang up''"
  have out: "outcomes ?w 10 =
      [Resolved ?r, Resolved ?r, ?e, Resolved ?r, Resolved ?r, ?e, Resolved ?r, Resolved ?r, ?e,
       Resolved ?r]"
    by (simp add: outcomes_def idle_world_def every_third_fails_def upt_conv_Cons
          settle_mock_exchange) (simp add: settle_def)
  have speed: "download_speed 1000 ?r = Fin (4 / 25)"
    by (simp add: download_speed_def measureSpeed_def num_sub_def to_number_def)
  have outv: "outcomes ?v 10 = replicate 10 ?e"
    by (simp add: outcomes_def idle_world_def map_replicate_const settle_def)
  have rej: "rejected (replicate n (Rejected x :: transaction promise)) = replicate n x" for n x
    by (induction n) simp_all
  have res: "resolved (replicate n (Rejected x :: transaction promise)) = []" for n x
    by (induction n) simp_all
  have samew: "?w\<lparr>sent := sent ?w @ replicate 10 (download_options 1000),
                   stderr := stderr ?w @ [?l, ?l, ?l]\<rparr>
      = ?w\<lparr>sent := replicate 10 (download_options 1000), stderr := replicate 3 ?l\<rparr>"
    by (simp add: idle_world_def numeral_eq_Suc)
  have samev: "?v\<lparr>sent := sent ?v @ replicate 10 (download_options 1000),
                   stderr := stderr ?v @ replicate 10 ?l\<rparr>
      = ?v\<lparr>sent := replicate 10 (download_options 1000), stderr := replicate 10 ?l\<rparr>"
    by (simp add: idle_world_def)
  have seven: "[x, x, x, x, x, x, x] = replicate 7 x" for x :: jsnum
    by (simp add: numeral_eq_Suc)
  from measureDownload_settled[of ?w 10 1000]
  have "measureDownload 1000 10 ?w =
     Inr ([Fin (4 / 25), Fin (4 / 25), Fin (4 / 25), Fin (4 / 25), Fin (4 / 25), Fin (4 / 25),
           Fin (4 / 25)],
          ?w\<lparr>sent := sent ?w @ replicate 10 (download_options 1000),
              stderr := stderr ?w @ [?l, ?l, ?l]\<rparr>)"
    by (simp add: out speed)
  then have 1: "measureDownload 1000 10 ?w =
     Inr (replicate 7 (Fin (4 / 25)),
          ?w\<lparr>sent := replicate 10 (download_options 1000), stderr := replicate 3 ?l\<rparr>)"
    unfolding samew seven .
  from measureDownload_settled[of ?v 10 1000]
  have "measureDownload 1000 10 ?v =
     Inr ([], ?v\<lparr>sent := sent ?v @ replicate 10 (download_options 1000),
                    stderr := stderr ?v @ replicate 10 ?l\<rparr>)"
    by (simp add: outv rej res map_replicate)
  then have 2: "measureDownload 1000 10 ?v =
     Inr ([], ?v\<lparr>sent := replicate 10 (download_options 1000), stderr := replicate 10 ?l\<rparr>)"
    unfolding samev .
  from 1 2 show ?thesis by (rule conjI)
qed

subsection \<open>The strings of the report\<close>

lemma is_digit_digit_char: "d < 10 \<Longrightarrow> is_digit (digit_char d)"
proof -
  assume "d < 10"
  then have "d \<in> {0, 1, 2, 3, 4, 5, 6, 7, 8, 9}" by auto
  then show ?thesis by (auto simp add: is_digit_def digit_char_def)
qed

lemma show_nat_digits: "show_nat n \<noteq> [] \<and> (\<forall>c\<in>set (show_nat n). is_digit c)"
proof (induction n rule: show_nat.induct)
  case (1 n)
  show ?case
  proof (cases "n < 10")
    case True
    then show ?thesis by (simp add: show_nat.simps[of n] is_digit_digit_char)
  next
    case False
    with 1 show ?thesis by (simp add: show_nat.simps[of n] is_digit_digit_char)
  qed
qed

lemma two_decimals_digits:
  assumes "ds \<noteq> []" "\<forall>c\<in>set ds. is_digit c" "is_digit a" "is_digit b"
  shows "two_decimals (ds @ [CHR ''.'', a, b])" "two_decimals (CHR ''-'' # ds @ [CHR ''.'', a, b])"
proof -
  have nd: "\<not> is_digit (CHR ''.'')" by (simp add: is_digit_def)
  obtain d dr where ds: "ds = d # dr" using assms(1) by (cases ds) auto
  have "is_digit d" using assms(2) ds by simp
  then have dm: "d \<noteq> CHR ''-''" by (auto simp add: is_digit_def)
  have tw: "takeWhile is_digit (ds @ [CHR ''.'', a, b]) = ds"
    using assms(2) nd by (simp add: takeWhile_append2)
  have dw: "dropWhile is_digit (ds @ [CHR ''.'', a, b]) = [CHR ''.'', a, b]"
    using assms(2) nd by (simp add: dropWhile_append2)
  have "two_decimals (d # dr @ [CHR ''.'', a, b])"
    unfolding two_decimals_def Let_def using dm tw dw assms ds by simp
  then show "two_decimals (ds @ [CHR ''.'', a, b])" by (simp add: ds)
  show "two_decimals (CHR ''-'' # ds @ [CHR ''.'', a, b])"
    unfolding two_decimals_def Let_def using tw dw assms by simp
qed

lemma split_last_two:
  assumes "3 \<le> length z"
  obtains ds a b where "ds \<noteq> []" "z = ds @ [a, b]"
proof -
  let ?k = "length z - 2"
  have l: "length (drop ?k z) = 2" using assms by simp
  then obtain a b where ab: "drop ?k z = [a, b]"
    by (metis (no_types, opaque_lifting) One_nat_def Suc_1 length_0_conv length_Suc_conv)
  have "take ?k z \<noteq> []" using assms by auto
  moreover have "z = take ?k z @ [a, b]" using ab by (metis append_take_drop_id)
  ultimately show ?thesis using that by blast
qed

lemma toFixed_two_decimals:
  assumes "\<bar>r\<bar> < 10 ^ 21"
  shows "two_decimals (toFixed big 2 (Fin r))"
proof -
  define m where "m = show_nat (nat \<lfloor>\<bar>r\<bar> * 10 ^ 2 + 1 / 2\<rfloor>)"
  define z where "z = (if length m \<le> 2 then replicate (2 + 1 - length m) (CHR ''0'') @ m else m)"
  have m: "m \<noteq> []" "\<forall>c\<in>set m. is_digit c" using show_nat_digits by (simp_all add: m_def)
  have z0: "is_digit (CHR ''0'')" by (simp add: is_digit_def)
  have zd: "\<forall>c\<in>set z. is_digit c" using m z0 by (auto simp add: z_def)
  have zl: "3 \<le> length z" by (auto simp add: z_def)
  obtain ds a b where ds: "ds \<noteq> []" "z = ds @ [a, b]" using split_last_two[OF zl] by blast
  have parts: "take (length z - 2) z = ds" "drop (length z - 2) z = [a, b]"
    using ds by simp_all
  have dig: "\<forall>c\<in>set ds. is_digit c" "is_digit a" "is_digit b" using zd ds by auto
  have "toFixed big 2 (Fin r) =
      (if r < 0 then ''-'' else []) @ take (length z - 2) z @ ''.'' @ drop (length z - 2) z"
    using assms by (simp add: toFixed_Fin Let_def z_def m_def)
  then have "toFixed big 2 (Fin r) = (if r < 0 then ''-'' else []) @ ds @ [CHR ''.'', a, b]"
    unfolding parts by simp
  then show ?thesis
    using two_decimals_digits[OF ds(1) dig] by simp
qed

lemma toFixed_not_finite:
  "\<not> two_decimals (toFixed big f NaN)" "\<not> two_decimals (toFixed big f PInf)"
  "\<not> two_decimals (toFixed big f NInf)"
  by (simp_all add: toFixed_def two_decimals_def is_digit_def)

lemma toFixed_zero: "two_decimals (toFixed big 2 NZero)"
  by (simp add: toFixed_def two_decimals_def show_nat.simps digit_char_def is_digit_def)

lemma toFixed_names:
  "toFixed big f NaN = ''NaN''" "toFixed big f PInf = ''Infinity''"
  "toFixed big f NInf = ''-Infinity''"
  by (simp_all add: toFixed_def)

lemma settle_other_timing_header:
  "settle (Completes other_timing_header) =
     Resolved \<lparr>started = 100, dnsLookup = Some 110, tcpHandshake = Some 120,
               sslHandshake = Some 130, ttfb = Some 150, ended = 200, serverTiming = NaN\<rparr>"
  by (simp add: settle_def other_timing_header_def mock_exchange_def parseFloat_def)

lemma latency_series_const:
  "net w = (\<lambda>k. x) \<Longrightarrow> settle x = Resolved t \<Longrightarrow> latency_series w = replicate 20 (latency_of t)"
  by (simp add: latency_series_def tier_promises_const resolved_replicate tier_requests_def)

lemma Math_min_constant: "Math_min (replicate (Suc n) (Fin x)) = Fin x"
proof -
  have "fold (\<lambda>x m. if num_less x m \<or> (x = NZero \<and> m = Fin 0) then x else m)
          (replicate k (Fin x)) (Fin x) = Fin x" for k
    by (induction k) simp_all
  then show ?thesis by (simp add: Math_min_def)
qed

lemma download_tier_series_explicit:
  "download_tier_series w =
     [map (download_speed 101000) (resolved (tier_promises w 1)),
      map (download_speed 1001000) (resolved (tier_promises w 2)),
      map (download_speed 10001000) (resolved (tier_promises w 3)),
      map (download_speed 25001000) (resolved (tier_promises w 4)),
      map (download_speed 100001000) (resolved (tier_promises w 5))]"
  by (simp add: download_tier_series_def download_tiers_def)

lemma Math_min_twenty: "Math_min (replicate 20 (Fin x)) = Fin x"
  using Math_min_constant[of 19 x] by simp

lemma latency_series_mock:
  "latency_series (idle_world (\<lambda>k. Completes mock_exchange)) = replicate 20 (Fin 40)"
proof -
  have "net (idle_world (\<lambda>k. Completes mock_exchange)) = (\<lambda>k. Completes mock_exchange)"
    by (simp add: idle_world_def)
  from latency_series_const[OF this settle_mock_exchange] show ?thesis
    by (simp add: latency_of_def to_number_def)
qed

lemma latency_series_other:
  "latency_series (idle_world (\<lambda>k. Completes other_timing_header)) = replicate 20 NaN"
proof -
  have "net (idle_world (\<lambda>k. Completes other_timing_header)) =
      (\<lambda>k. Completes other_timing_header)"
    by (simp add: idle_world_def)
  from latency_series_const[OF this settle_other_timing_header] show ?thesis
    by (simp add: latency_of_def to_number_def num_sub_def)
qed

lemma trace_colo: "parseCfCdnCgiTrace ''colo=AMS'' ''colo'' = Some ''AMS''"
  by (simp add: parseCfCdnCgiTrace_def key_value_def obj_assign_def)

lemma city_of_colo:
  "obj_get (fetchServerLocationData [(''AMS'', ''Amsterdam'')]) ''AMS'' = Some ''Amsterdam''"
  by (simp add: fetchServerLocationData_def obj_get_def obj_assign_def)

lemma json_argv: "json_mode [''node'', ''cli.js'', ''--json'']"
  by (simp add: json_mode_def)

lemma example_stats_total:
  "\<exists>a. average example_stats s = Inr a" "\<exists>a. median example_stats s = Inr a"
  "\<exists>a. jitter example_stats s = Inr a" "\<exists>a. quartile example_stats s (Fin (9 / 10)) = Inr a"
  by (simp_all add: example_stats_def host_spec_stats)

subsection \<open>The claims\<close>

text \<open>
  C1. When no handler throws, the latency probe records, for each of its 20 transactions
  that resolved and in their order, \<open>ttfb - started - serverTiming\<close>; a rejected one
  adds nothing but its line on the error stream. With a first byte at \<open>t\<close> and a server
  timing \<open>d\<close> that is \<open>t - started - d\<close>, and 40 for 150, 100 and 10.
\<close>

theorem latency_measurement:
  "((\<forall>p\<in>set (outcomes w 20). settles p) \<longrightarrow>
      latencyMeasurements w =
        Inr (map latency_of (resolved (outcomes w 20)),
             w\<lparr>sent := sent w @ replicate 20 (download_options 1000),
               stderr := stderr w @ map (\<lambda>e. ''Error: '' @ e) (rejected (outcomes w 20))\<rparr>))
   \<and> (ttfb r = Some firstByteAt \<and> serverTiming r = Fin serverProcessingMs \<longrightarrow>
        latency_of r = Fin (firstByteAt - started r - serverProcessingMs))
   \<and> (started r = 100 \<and> ttfb r = Some 150 \<and> serverTiming r = Fin 10 \<longrightarrow> latency_of r = Fin 40)"
  by (simp add: latencyMeasurements_def download_def trials_request first_uncaught_None[symmetric]
        latency_of_def num_sub_def to_number_def)

theorem latency_measurement_witness:
  "latencyMeasurements (idle_world (\<lambda>k. Completes mock_exchange)) =
     Inr (replicate 20 (Fin 40),
          (idle_world (\<lambda>k. Completes mock_exchange))\<lparr>sent := replicate 20 (download_options 1000)\<rparr>)"
proof -
  let ?w = "idle_world (\<lambda>k. Completes mock_exchange)"
  let ?r = "\<lparr>started = 100, dnsLookup = Some 110, tcpHandshake = Some 120,
             sslHandshake = Some 130, ttfb = Some 150, ended = 200, serverTiming = Fin 10\<rparr>"
  have out: "outcomes ?w 20 = replicate 20 (Resolved ?r)"
    by (simp add: outcomes_def idle_world_def settle_mock_exchange map_replicate_const)
  have res: "resolved (replicate n (Resolved x)) = replicate n x" for n and x :: transaction
    by (induction n) simp_all
  have rej: "rejected (replicate n (Resolved x)) = []" for n and x :: transaction
    by (induction n) simp_all
  have same: "?w\<lparr>sent := sent ?w @ replicate 20 (download_options 1000), stderr := stderr ?w @ []\<rparr>
      = ?w\<lparr>sent := replicate 20 (download_options 1000)\<rparr>"
    by (simp add: idle_world_def)
  from latency_measurement[of ?w ?r 150 10]
  have "latencyMeasurements ?w =
      Inr (replicate 20 (Fin 40),
           ?w\<lparr>sent := sent ?w @ replicate 20 (download_options 1000), stderr := stderr ?w @ []\<rparr>)"
    by (simp add: out res rej)
  then show ?thesis unfolding same .
qed

text \<open>
  C2. For every byte count and every duration, \<open>measureSpeed\<close> is
  \<open>(byteCount \<times> 8) / (durationMs / 1000) / 1000000\<close> in the arithmetic of the host. As long
  as none of the four results leaves the range of the doubles, that is the real number
  of the same expression: 8 for one million bytes in one thousand milliseconds. Outside
  that range the host arithmetic gives what it gives for the expression: an infinity
  when the product overflows, and for a zero duration the infinity of the sign of that
  zero.
\<close>

theorem measureSpeed_formula:
  "measureSpeed byteCount durationMs =
     num_div (num_div (num_mul byteCount (Fin 8)) (num_div durationMs (Fin 1000))) (Fin 1000000)
   \<and> (in_double_range (b * 8) \<and> in_double_range (d / 1000)
        \<and> in_double_range (b * 8 / (d / 1000))
        \<and> in_double_range (b * 8 / (d / 1000) / 1000000) \<longrightarrow>
        measureSpeed (Fin b) (Fin d) = Fin (b * 8 / (d / 1000) / 1000000))
   \<and> measureSpeed (Fin 1000000) (Fin 1000) = Fin 8
   \<and> measureSpeed (Fin (10 ^ 308)) (Fin 1) = PInf
   \<and> measureSpeed (Fin 1000) (Fin 0) = PInf
   \<and> measureSpeed (Fin 1000) NZero = NInf"
proof (intro conjI impI)
  show "measureSpeed byteCount durationMs =
     num_div (num_div (num_mul byteCount (Fin 8)) (num_div durationMs (Fin 1000))) (Fin 1000000)"
    by (simp add: measureSpeed_def)
next
  assume a: "in_double_range (b * 8) \<and> in_double_range (d / 1000)
        \<and> in_double_range (b * 8 / (d / 1000))
        \<and> in_double_range (b * 8 / (d / 1000) / 1000000)"
  then have nz: "b \<noteq> 0" "d \<noteq> 0"
    using in_double_range_nonzero[of "b * 8"] in_double_range_nonzero[of "d / 1000"] by auto
  have 1: "num_mul (Fin b) (Fin 8) = Fin (b * 8)"
    using a nz by (simp add: nearest_in_range)
  have 2: "num_div (Fin d) (Fin 1000) = Fin (d / 1000)"
    using a nz by (simp add: nearest_in_range)
  have 3: "num_div (Fin (b * 8)) (Fin (d / 1000)) = Fin (b * 8 / (d / 1000))"
    using a nz nearest_in_range[of "b * 8 / (d / 1000)"] by simp
  have nz3: "b * 8 / (d / 1000) \<noteq> 0" using nz by simp
  have 4: "num_div (Fin (b * 8 / (d / 1000))) (Fin 1000000) = Fin (b * 8 / (d / 1000) / 1000000)"
    using a nearest_in_range[of "b * 8 / (d / 1000) / 1000000"] num_div_Fin[OF nz3, of 1000000]
    by simp
  show "measureSpeed (Fin b) (Fin d) = Fin (b * 8 / (d / 1000) / 1000000)"
    unfolding measureSpeed_def 1 2 3 4 ..
next
  show "measureSpeed (Fin 1000000) (Fin 1000) = Fin 8"
    by (simp add: measureSpeed_def)
next
  have "nearest (10 ^ 308 * 8) = PInf"
    by (simp add: nearest_def)
  then have 1: "num_mul (Fin (10 ^ 308)) (Fin 8) = PInf" by simp
  have 2: "num_div (Fin 1) (Fin 1000) = Fin (1 / 1000)" by simp
  show "measureSpeed (Fin (10 ^ 308)) (Fin 1) = PInf"
    unfolding measureSpeed_def 1 2 by (simp add: num_div_inf)
next
  have 1: "num_mul (Fin 1000) (Fin 8) = Fin 8000" by simp
  have 2: "num_div (Fin 0) (Fin 1000) = Fin 0" by simp
  show "measureSpeed (Fin 1000) (Fin 0) = PInf"
    unfolding measureSpeed_def 1 2 by (simp add: num_div_inf)
next
  have 1: "num_mul (Fin 1000) (Fin 8) = Fin 8000" by simp
  have 2: "num_div NZero (Fin 1000) = NZero"
    by (simp add: num_div_def is_zero_def is_inf_def is_neg_def)
  have 3: "num_div (Fin 8000) NZero = NInf"
    by (simp add: num_div_def is_zero_def is_inf_def is_neg_def)
  show "measureSpeed (Fin 1000) NZero = NInf"
    unfolding measureSpeed_def 1 2 3 by (simp add: num_div_inf)
qed

theorem measureSpeed_formula_witness:
  "measureSpeed (Fin 101000) (Fin 500) = Fin (1616 / 1000)
   \<and> in_double_range (101000 * 8 / (500 / 1000) / 1000000)"
proof -
  have r: "in_double_range (101000 * 8) \<and> in_double_range (500 / 1000)
        \<and> in_double_range (101000 * 8 / (500 / 1000))
        \<and> in_double_range (101000 * 8 / (500 / 1000) / 1000000)"
    by (simp add: in_double_range_moderate)
  from measureSpeed_formula[of "Fin 101000" "Fin 500" 101000 500, THEN conjunct2, THEN conjunct1] r
  have "measureSpeed (Fin 101000) (Fin 500) = Fin (101000 * 8 / (500 / 1000) / 1000000)"
    by blast
  with r show ?thesis by simp
qed

text \<open>
  C4. \<open>measureDownload\<close> returns the measurements of the resolved trials, in order, and
  logs the rejected ones, unless the handler of one trial throws: then that exception is
  the outcome of the call, no trial is logged and no series is returned. A response
  without the timing header makes the handler throw a TypeError; ten trials of which the
  third gets such a response end with that TypeError.
\<close>

theorem trial_runner_escape:
  "measureDownload bytes n w =
     (case first_uncaught (outcomes w n) of
        Some e \<Rightarrow> Inl e
      | None \<Rightarrow>
          Inr (map (download_speed bytes) (resolved (outcomes w n)),
               w\<lparr>sent := sent w @ replicate n (download_options bytes),
                 stderr := stderr w @ map (\<lambda>e. ''Error: '' @ e) (rejected (outcomes w n))\<rparr>))
   \<and> settle (Completes no_timing_header) = Uncaught TypeError
   \<and> measureDownload 1000 10 (idle_world header_missing_once) = Inl TypeError"
proof (intro conjI)
  show 1: "measureDownload bytes n w =
     (case first_uncaught (outcomes w n) of
        Some e \<Rightarrow> Inl e
      | None \<Rightarrow>
          Inr (map (download_speed bytes) (resolved (outcomes w n)),
               w\<lparr>sent := sent w @ replicate n (download_options bytes),
                 stderr := stderr w @ map (\<lambda>e. ''Error: '' @ e) (rejected (outcomes w n))\<rparr>))"
    for bytes n w
    by (simp add: measureDownload_def download_def trials_request split: option.splits)
  show "settle (Completes no_timing_header) = Uncaught TypeError"
    by (rule settle_no_timing_header)
  have "first_uncaught (outcomes (idle_world header_missing_once) 10) = Some TypeError"
    by (simp add: outcomes_def idle_world_def header_missing_once_def upt_conv_Cons
        settle_mock_exchange settle_no_timing_header)
  then show "measureDownload 1000 10 (idle_world header_missing_once) = Inl TypeError"
    by (simp add: 1)
qed

text \<open>
  C5. Each measurement that \<open>measureDownload\<close> returns is the throughput formula applied
  to the byte count and to \<open>ended - ttfb\<close> of a resolved transaction, in order. For
  1001000 bytes between 100 and 600 that is 16.016, printed as 16.02.
\<close>

theorem download_measurement:
  "(measureDownload bytes n w = Inr (ms, w') \<longrightarrow>
      ms = map (download_speed bytes) (resolved (outcomes w n)))
   \<and> (ttfb r = Some firstByteAt \<longrightarrow>
        download_speed bytes r = measureSpeed (Fin (real bytes)) (Fin (ended r - firstByteAt)))
   \<and> (ttfb r = Some 100 \<and> ended r = 600 \<longrightarrow>
        download_speed 1001000 r = Fin (16016 / 1000)
        \<and> toFixed big 2 (download_speed 1001000 r) = ''16.02'')"
  by (auto simp add: measureDownload_Inr download_speed_def num_sub_def to_number_def
        measureSpeed_def toFixed_Fin show_nat.simps digit_char_def)

theorem download_measurement_witness:
  "measureDownload 1001000 1 (idle_world (\<lambda>k. Completes mock_download)) =
     Inr ([Fin (16016 / 1000)],
          (idle_world (\<lambda>k. Completes mock_download))\<lparr>sent := [download_options 1001000]\<rparr>)"
proof -
  let ?w = "idle_world (\<lambda>k. Completes mock_download)"
  let ?r = "\<lparr>started = 40, dnsLookup = None, tcpHandshake = None,
               sslHandshake = None, ttfb = Some 100, ended = 600, serverTiming = Fin (51 / 2)\<rparr>"
  have out: "outcomes ?w (Suc 0) = [Resolved ?r]"
    by (simp add: outcomes_def idle_world_def settle_mock_download)
  have same: "?w\<lparr>sent := sent ?w @ [download_options 1001000], stderr := stderr ?w\<rparr>
      = ?w\<lparr>sent := [download_options 1001000]\<rparr>"
    by (simp add: idle_world_def)
  have "measureDownload 1001000 1 ?w =
      Inr (map (download_speed 1001000) [?r],
           ?w\<lparr>sent := sent ?w @ [download_options 1001000], stderr := stderr ?w\<rparr>)"
    by (simp add: measureDownload_def download_def trials_request out)
  then have run: "measureDownload 1001000 1 ?w =
      Inr (map (download_speed 1001000) [?r], ?w\<lparr>sent := [download_options 1001000]\<rparr>)"
    unfolding same .
  have "download_speed 1001000 ?r = Fin (16016 / 1000)"
    using download_measurement[of 1001000 1 ?w "map (download_speed 1001000) [?r]"
      "?w\<lparr>sent := [download_options 1001000]\<rparr>" ?r 100 "\<lambda>x. []",
      THEN conjunct2, THEN conjunct2]
    by simp
  with run show ?thesis by simp
qed

text \<open>
  C6. Each measurement that \<open>measureUpload\<close> returns is the throughput formula applied to
  the byte count and to the server timing of a resolved transaction, in order. No
  reading of the client's clock enters: two networks that tell the same about the
  server give the same series, or the same exception.
\<close>

theorem upload_measurement:
  "(measureUpload bytes n w = Inr (ms, w') \<longrightarrow>
      ms = map (\<lambda>r. measureSpeed (Fin (real bytes)) (serverTiming r)) (resolved (outcomes w n)))
   \<and> (length (sent w1) = length (sent w2) \<and> (\<forall>k. same_server_report (net w1 k) (net w2 k)) \<longrightarrow>
        map_sum id fst (measureUpload bytes n w1) = map_sum id fst (measureUpload bytes n w2))"
proof (intro conjI impI)
  assume "measureUpload bytes n w = Inr (ms, w')"
  from measureUpload_Inr[OF this]
  show "ms = map (\<lambda>r. measureSpeed (Fin (real bytes)) (serverTiming r)) (resolved (outcomes w n))"
    by (simp add: upload_speed_def[abs_def])
next
  assume a: "length (sent w1) = length (sent w2) \<and> (\<forall>k. same_server_report (net w1 k) (net w2 k))"
  then have "list_all2 same_server_report
      (map (\<lambda>k. net w1 (length (sent w1) + k)) [0..<n])
      (map (\<lambda>k. net w2 (length (sent w2) + k)) [0..<n])"
    by (simp add: list_all2_map1 list_all2_map2 list_all2_same)
  from same_server_report_series[OF this, of bytes]
  show "map_sum id fst (measureUpload bytes n w1) = map_sum id fst (measureUpload bytes n w2)"
    by (simp add: measureUpload_def upload_def trials_request outcomes_map split: option.splits)
qed


theorem upload_measurement_witness:
  "measureUpload 11000 2 (idle_world (\<lambda>k. Completes mock_download)) =
     Inr ([Fin (176 / 51), Fin (176 / 51)],
          (idle_world (\<lambda>k. Completes mock_download))
            \<lparr>sent := [upload_options 11000, upload_options 11000]\<rparr>)
   \<and> map_sum id fst
        (measureUpload 11000 2
          (idle_world (\<lambda>k. Completes (mock_download\<lparr>at_request := 0, at_readable := None,
                                                    at_end := 5\<rparr>)))) =
     Inr [Fin (176 / 51), Fin (176 / 51)]"
proof -
  let ?w = "idle_world (\<lambda>k. Completes mock_download)"
  let ?v = "idle_world (\<lambda>k. Completes (mock_download\<lparr>at_request := 0, at_readable := None,
                                                    at_end := 5\<rparr>))"
  let ?r = "\<lparr>started = 40, dnsLookup = None, tcpHandshake = None,
               sslHandshake = None, ttfb = Some 100, ended = 600, serverTiming = Fin (51 / 2)\<rparr>"
  let ?w' = "?w\<lparr>sent := [upload_options 11000, upload_options 11000]\<rparr>"
  have out: "outcomes ?w 2 = [Resolved ?r, Resolved ?r]"
    by (simp add: outcomes_def idle_world_def settle_mock_download upt_conv_Cons)
  have same: "?w\<lparr>sent := sent ?w @ replicate 2 (upload_options 11000), stderr := stderr ?w\<rparr> = ?w'"
    by (simp add: idle_world_def numeral_eq_Suc)
  have "first_uncaught (outcomes ?w 2) = None" "rejected (outcomes ?w 2) = []"
    by (simp_all add: out)
  then have "measureUpload 11000 2 ?w =
      Inr (map (upload_speed 11000) (resolved (outcomes ?w 2)),
           ?w\<lparr>sent := sent ?w @ replicate 2 (upload_options 11000), stderr := stderr ?w\<rparr>)"
    by (simp add: measureUpload_def upload_def trials_request)
  then have run: "measureUpload 11000 2 ?w =
      Inr (map (upload_speed 11000) (resolved (outcomes ?w 2)), ?w')"
    unfolding same .
  have "map (upload_speed 11000) (resolved (outcomes ?w 2)) =
      map (\<lambda>r. measureSpeed (Fin (real 11000)) (serverTiming r)) (resolved (outcomes ?w 2))"
    using upload_measurement[of 11000 2 ?w "map (upload_speed 11000) (resolved (outcomes ?w 2))"
            ?w' ?w ?v, THEN conjunct1] run
    by simp
  then have ms: "map (upload_speed 11000) (resolved (outcomes ?w 2)) = [Fin (176 / 51), Fin (176 / 51)]"
    by (simp add: out measureSpeed_def)
  have "length (sent ?w) = length (sent ?v)"
    by (simp add: idle_world_def)
  moreover have "\<forall>k. same_server_report (net ?w k) (net ?v k)"
    by (simp add: idle_world_def same_server_report_def mock_download_def)
  ultimately have "map_sum id fst (measureUpload 11000 2 ?w) = map_sum id fst (measureUpload 11000 2 ?v)"
    using upload_measurement[of 11000 2 ?w "map (upload_speed 11000) (resolved (outcomes ?w 2))"
            ?w' ?w ?v, THEN conjunct2]
    by simp
  with run ms show ?thesis by simp
qed

text \<open>
  C3, as the code has it for a response that carries the header. Such a response always
  resolves, with \<open>parseFloat\<close> of the header value from offset 22 on: that is
  not-a-number exactly when no number starts there, and never an error. The header
  \<open>cfExtPri\<close> resolves with not-a-number.
\<close>

theorem server_timing_header:
  "map_of (res_headers ex) ''server-timing'' = Some v \<longrightarrow>
     (\<exists>t. settle (Completes ex) = Resolved t \<and> serverTiming t = parseFloat (drop 22 v)
          \<and> (serverTiming t = NaN \<longleftrightarrow> \<not> starts_number (drop 22 v)))"
  by (simp add: settle_def parseFloat_NaN)

theorem server_timing_header_witness:
  "\<exists>t. settle (Completes mock_exchange) = Resolved t \<and> serverTiming t = Fin 10"
proof -
  have m: "map_of (res_headers mock_exchange) ''server-timing'' = Some ''cfRequestDuration;dur=10.0''"
    by (simp add: mock_exchange_def)
  from server_timing_header[of mock_exchange "''cfRequestDuration;dur=10.0''"] m
  show ?thesis by (auto simp add: parseFloat_10)
qed

theorem server_timing_header_counterexample:
  "settle (Completes other_timing_header) =
     Resolved \<lparr>started = 100, dnsLookup = Some 110, tcpHandshake = Some 120,
               sslHandshake = Some 130, ttfb = Some 150, ended = 200, serverTiming = NaN\<rparr>
   \<and> \<not> starts_number (drop 22 ''cfExtPri'')"
  by (simp add: settle_def other_timing_header_def mock_exchange_def parseFloat_def
        starts_number_def)

text \<open>
  C10. For every key but one the trace parser answers with the value of the last entry of
  that key, and with nothing when no line is an entry of it. The key \<open>__proto__\<close> is
  never stored: the text \<open>__proto__=x\<close> has one entry and parses to the empty dictionary.
\<close>

theorem parseCfCdnCgiTrace_entries:
  "parseCfCdnCgiTrace t k =
     (if k = ''__proto__'' then None else map_of (rev (trace_entries t)) k)
   \<and> parseCfCdnCgiTrace ''__proto__=x'' = Map.empty
   \<and> trace_entries ''__proto__=x'' = [(''__proto__'', ''x'')]"
proof (intro conjI)
  have 1: "parseCfCdnCgiTrace u j =
     (if j = ''__proto__'' then None else map_of (rev (trace_entries u)) j)" for u j
    by (simp add: parseCfCdnCgiTrace_def fold_assign map_filter_key_value trace_entries_def
          split: option.splits)
  show "parseCfCdnCgiTrace t k =
     (if k = ''__proto__'' then None else map_of (rev (trace_entries t)) k)"
    by (rule 1)
  show 3: "trace_entries ''__proto__=x'' = [(''__proto__'', ''x'')]"
    by (simp add: trace_entries_def List.map_filter_simps line_entry_def)
  show "parseCfCdnCgiTrace ''__proto__=x'' = Map.empty"
  proof
    fix j show "parseCfCdnCgiTrace ''__proto__=x'' j = None"
      unfolding 1 3 by simp
  qed
qed

text \<open>
  C7. A run of \<open>speedTest\<close> that returns has sent, after the 20 latency probes, the
  download tiers of 101000 bytes 10 times, 1001000 bytes 8 times, 10001000 bytes 6 times,
  25001000 bytes 4 times and 100001000 bytes once, and then the upload tiers of 11000
  bytes 10 times, 101000 bytes 10 times and 1001000 bytes 8 times, in that order and
  nothing else. In each sweep the sizes grow and the numbers of trials do not. The overall
  download and upload figures, in the report of JSON mode and on the last two lines
  otherwise, are \<open>quartile(tests, 0.9)\<close> of the concatenation of the sweep's series in
  tier order, printed with two decimals.
\<close>

theorem speedTest_plan:
  assumes "speedTest h argv locations trace_text w0 = Inr w'"
  shows "sent w' = sent w0 @ planned_requests
    \<and> planned_requests =
        replicate 20 (download_options 1000)
        @ replicate 10 (download_options 101000) @ replicate 8 (download_options 1001000)
        @ replicate 6 (download_options 10001000) @ replicate 4 (download_options 25001000)
        @ replicate 1 (download_options 100001000)
        @ replicate 10 (upload_options 11000) @ replicate 10 (upload_options 101000)
        @ replicate 8 (upload_options 1001000)
    \<and> sorted_wrt (\<lambda>(l, b, n) (l', b', n'). b < b' \<and> n' \<le> n) download_tiers
    \<and> sorted_wrt (\<lambda>(b, n) (b', n'). b < b' \<and> n' \<le> n) upload_tiers
    \<and> (\<exists>qd qu.
          quartile h (concat (download_tier_series w0)) (Fin (9 / 10)) = Inr qd
        \<and> quartile h (concat (upload_tier_series w0)) (Fin (9 / 10)) = Inr qu
        \<and> (if json_mode argv
           then \<exists>r. stdout w' = stdout w0 @ [JsonDoc r]
                  \<and> last (download_speeds r) =
                      \<lparr>size_label = ''overall'', speed = toFixed (number_to_string h) 2 qd\<rparr>
                  \<and> upload_speeds r =
                      [\<lparr>size_label = ''overall'', speed = toFixed (number_to_string h) 2 qu\<rparr>]
           else drop (length (stdout w0) + 9) (stdout w') =
                  [Styled [''  Download speed:'', toFixed (number_to_string h) 2 qd, ''Mbps''],
                   Styled [''    Upload speed:'', toFixed (number_to_string h) 2 qu, ''Mbps'']]))"
proof -
  note m = speedTest_Inr[OF assms]
  have 1: "sent w' = sent w0 @ planned_requests" using m by simp
  have 2: "planned_requests =
        replicate 20 (download_options 1000)
        @ replicate 10 (download_options 101000) @ replicate 8 (download_options 1001000)
        @ replicate 6 (download_options 10001000) @ replicate 4 (download_options 25001000)
        @ replicate 1 (download_options 100001000)
        @ replicate 10 (upload_options 11000) @ replicate 10 (upload_options 101000)
        @ replicate 8 (upload_options 1001000)"
    by (simp add: planned_requests_def tier_requests_def download_tiers_def upload_tiers_def)
  have 3: "sorted_wrt (\<lambda>(l, b, n) (l', b', n'). b < b' \<and> n' \<le> n) download_tiers"
    by (simp add: download_tiers_def)
  have 4: "sorted_wrt (\<lambda>(b, n) (b', n'). b < b' \<and> n' \<le> n) upload_tiers"
    by (simp add: upload_tiers_def)
  obtain qd where qd: "quartile h (concat (download_tier_series w0)) (Fin (9 / 10)) = Inr qd"
    using m unfolding overall_download_def by metis
  obtain qu where qu: "quartile h (concat (upload_tier_series w0)) (Fin (9 / 10)) = Inr qu"
    using m unfolding overall_upload_def by metis
  have 5: "if json_mode argv
           then \<exists>r. stdout w' = stdout w0 @ [JsonDoc r]
                  \<and> last (download_speeds r) =
                      \<lparr>size_label = ''overall'', speed = toFixed (number_to_string h) 2 qd\<rparr>
                  \<and> upload_speeds r =
                      [\<lparr>size_label = ''overall'', speed = toFixed (number_to_string h) 2 qu\<rparr>]
           else drop (length (stdout w0) + 9) (stdout w') =
                  [Styled [''  Download speed:'', toFixed (number_to_string h) 2 qd, ''Mbps''],
                   Styled [''    Upload speed:'', toFixed (number_to_string h) 2 qu, ''Mbps'']]"
  proof (cases "json_mode argv")
    case True
    with m have "stdout w' = stdout w0 @
        [JsonDoc (expected_report h (projr locations) (projr trace_text) w0)]" by simp
    with True show ?thesis
      by (simp add: expected_report_def Let_def overall_download_def overall_upload_def qd qu)
  next
    case False
    with m show ?thesis
      by (simp add: overall_download_def overall_upload_def qd qu)
  qed
  from 1 2 3 4 qd qu 5 show ?thesis by blast
qed

theorem speedTest_plan_witness:
  "\<exists>w'. speedTest example_stats [''node'', ''cli.js''] (Inr []) (Inr [])
           (idle_world (\<lambda>k. Completes mock_download)) = Inr w'
     \<and> sent w' =
        replicate 20 (download_options 1000)
        @ replicate 10 (download_options 101000) @ replicate 8 (download_options 1001000)
        @ replicate 6 (download_options 10001000) @ replicate 4 (download_options 25001000)
        @ replicate 1 (download_options 100001000)
        @ replicate 10 (upload_options 11000) @ replicate 10 (upload_options 101000)
        @ replicate 8 (upload_options 1001000)
     \<and> drop 9 (stdout w') =
        [Styled [''  Download speed:'', ''400.02'', ''Mbps''],
         Styled [''    Upload speed:'', ''314.04'', ''Mbps'']]"
proof -
  let ?w = "idle_world (\<lambda>k. Completes mock_download)"
  have "\<And>k. settles (settle (net ?w k))"
    by (simp add: idle_world_def settle_mock_download)
  then obtain w' where run: "speedTest example_stats [''node'', ''cli.js''] (Inr []) (Inr []) ?w = Inr w'"
    using speedTest_returns[of ?w example_stats "[''node'', ''cli.js'']" "[]" "[]"]
    by (auto simp add: example_stats_def host_spec_stats)
  have j: "\<not> json_mode [''node'', ''cli.js'']" by (simp add: json_mode_def)
  have s: "sent ?w = []" "stdout ?w = []" by (simp_all add: idle_world_def)
  from speedTest_plan[OF run] have "sent w' =
        replicate 20 (download_options 1000)
        @ replicate 10 (download_options 101000) @ replicate 8 (download_options 1001000)
        @ replicate 6 (download_options 10001000) @ replicate 4 (download_options 25001000)
        @ replicate 1 (download_options 100001000)
        @ replicate 10 (upload_options 11000) @ replicate 10 (upload_options 101000)
        @ replicate 8 (upload_options 1001000)
     \<and> drop 9 (stdout w') =
        [Styled [''  Download speed:'', ''400.02'', ''Mbps''],
         Styled [''    Upload speed:'', ''314.04'', ''Mbps'']]"
    unfolding download_series_mock upload_series_mock example_stats_def host_spec_stats
      overall_download_mock overall_upload_mock s
    using j by (auto simp add: toFixed_overall_mock)
  with run show ?thesis by blast
qed

text \<open>
  C9. When the 20 responses of the latency probe come without the timing header, the
  first one makes the handler throw a TypeError: \<open>measureLatency\<close> returns no statistics
  and \<open>speedTest\<close> ends with that exception before any tier runs. When the 20 trials are
  rejected, \<open>measureLatency\<close> logs them and returns \<open>Infinity\<close>, \<open>-Infinity\<close> and what the
  three statistics make of the empty series, or the exception that one of them throws.
\<close>

theorem latency_probe_escape:
  "measureLatency h (idle_world (\<lambda>k. Completes no_timing_header)) = Inl TypeError
   \<and> speedTest h argv locations trace_text (idle_world (\<lambda>k. Completes no_timing_header)) =
       Inl TypeError
   \<and> measureLatency h (idle_world (\<lambda>k. Fails ''Error: socket hang up'')) =
       then_do (average h []) (\<lambda>a.
       then_do (median h []) (\<lambda>m.
       then_do (jitter h []) (\<lambda>j.
       Inr ([PInf, NInf, a, m, j],
            (idle_world (\<lambda>k. Fails ''Error: socket hang up''))
              \<lparr>sent := replicate 20 (download_options 1000),
                stderr := replicate 20 ''Error: Error: socket hang up''\<rparr>))))"
proof (intro conjI)
  let ?w = "idle_world (\<lambda>k. Completes no_timing_header)"
  let ?v = "idle_world (\<lambda>k. Fails ''Error: socket hang up'')"
  have "first_uncaught (outcomes ?w 20) = Some TypeError"
    by (simp add: outcomes_def idle_world_def upt_conv_Cons settle_no_timing_header)
  then have l: "latencyMeasurements ?w = Inl TypeError"
    by (simp add: latencyMeasurements_def download_def trials_request)
  then show m: "measureLatency h ?w = Inl TypeError"
    by (simp add: measureLatency_def then_do_def)
  show "speedTest h argv locations trace_text ?w = Inl TypeError"
    by (simp add: speedTest_def Let_def m then_do_def)
  have out: "outcomes ?v 20 = replicate 20 (Rejected ''Error: socket hang up'')"
    by (simp add: outcomes_def idle_world_def map_replicate_const settle_def)
  have rej: "rejected (replicate n (Rejected x :: transaction promise)) = replicate n x" for n x
    by (induction n) simp_all
  have res: "resolved (replicate n (Rejected x :: transaction promise)) = []" for n x
    by (induction n) simp_all
  have unc: "first_uncaught (replicate n (Rejected x :: transaction promise)) = None" for n x
    by (induction n) simp_all
  have same: "?v\<lparr>sent := sent ?v @ replicate 20 (download_options 1000),
                 stderr := stderr ?v @ replicate 20 ''Error: Error: socket hang up''\<rparr> =
      ?v\<lparr>sent := replicate 20 (download_options 1000),
          stderr := replicate 20 ''Error: Error: socket hang up''\<rparr>"
    by (simp add: idle_world_def)
  have "latencyMeasurements ?v =
      Inr ([], ?v\<lparr>sent := sent ?v @ replicate 20 (download_options 1000),
                   stderr := stderr ?v @ replicate 20 ''Error: Error: socket hang up''\<rparr>)"
    by (simp add: latencyMeasurements_def download_def trials_request out rej res unc
        map_replicate)
  then have "latencyMeasurements ?v =
      Inr ([], ?v\<lparr>sent := replicate 20 (download_options 1000),
                   stderr := replicate 20 ''Error: Error: socket hang up''\<rparr>)"
    unfolding same .
  then show "measureLatency h ?v =
       then_do (average h []) (\<lambda>a.
       then_do (median h []) (\<lambda>m.
       then_do (jitter h []) (\<lambda>j.
       Inr ([PInf, NInf, a, m, j],
            ?v\<lparr>sent := replicate 20 (download_options 1000),
                stderr := replicate 20 ''Error: Error: socket hang up''\<rparr>))))"
    by (simp add: measureLatency_def then_do_def Math_min_def Math_max_def split: sum.splits)
qed

text \<open>
  C8, as the code has it. A run of \<open>speedTest\<close> in JSON mode that returns prints, last,
  one report: the two location strings, the five latency fields, the download entries
  labelled 100kB, 1MB, 10MB, 25MB, 100MB and overall, and the upload entry overall. Each
  latency field and each speed is \<open>toFixed(2)\<close> of a number. That string has exactly two
  decimal places when the number is finite and below \<open>10\<^sup>2\<^sup>1\<close> in magnitude, and is \<open>NaN\<close>,
  \<open>Infinity\<close> or \<open>-Infinity\<close> when it is not finite. When every response carries the
  header \<open>cfExtPri\<close>, the field \<open>min\<close> of the latency is \<open>NaN\<close>.
\<close>

theorem json_report_format:
  assumes "speedTest h argv locations trace_text w0 = Inr w'" and "json_mode argv"
  shows "(\<exists>res tx r stats.
            locations = Inr res \<and> trace_text = Inr tx
          \<and> r = expected_report h res tx w0
          \<and> stdout w' = stdout w0 @ [JsonDoc r]
          \<and> map size_label (download_speeds r) =
               [''100kB'', ''1MB'', ''10MB'', ''25MB'', ''100MB'', ''overall'']
          \<and> map size_label (upload_speeds r) = [''overall'']
          \<and> [min_ms (latency r), max_ms (latency r), average_ms (latency r),
              median_ms (latency r), jitter_ms (latency r)]
             @ map speed (download_speeds r) @ map speed (upload_speeds r) =
               map (toFixed (number_to_string h) 2) stats)
    \<and> (\<bar>v\<bar> < 10 ^ 21 \<longrightarrow> two_decimals (toFixed big 2 (Fin v)))
    \<and> two_decimals (toFixed big 2 NZero)
    \<and> toFixed big 2 NaN = ''NaN''
    \<and> toFixed big 2 PInf = ''Infinity''
    \<and> toFixed big 2 NInf = ''-Infinity''"
proof -
  note m = speedTest_Inr[OF assms(1)]
  let ?r = "expected_report h (projr locations) (projr trace_text) w0"
  let ?ls = "latency_series w0"
  let ?stats = "[Math_min ?ls, Math_max ?ls, projr (average h ?ls), projr (median h ?ls),
                 projr (jitter h ?ls)]
                @ map (\<lambda>s. projr (median h s)) (download_tier_series w0)
                @ [projr (overall_download h w0), projr (overall_upload h w0)]"
  have l: "locations = Inr (projr locations)" "trace_text = Inr (projr trace_text)"
    using m by simp_all
  have out: "stdout w' = stdout w0 @ [JsonDoc ?r]" using m assms(2) by simp
  note ts = download_tier_series_explicit[of w0]
  have labels: "map size_label (download_speeds ?r) =
      [''100kB'', ''1MB'', ''10MB'', ''25MB'', ''100MB'', ''overall'']"
    unfolding expected_report_def Let_def ts by (simp add: download_tiers_def)
  have up: "map size_label (upload_speeds ?r) = [''overall'']"
    by (simp add: expected_report_def Let_def)
  have fields: "[min_ms (latency ?r), max_ms (latency ?r), average_ms (latency ?r),
              median_ms (latency ?r), jitter_ms (latency ?r)]
             @ map speed (download_speeds ?r) @ map speed (upload_speeds ?r) =
               map (toFixed (number_to_string h) 2) ?stats"
    unfolding expected_report_def Let_def ts by (simp add: download_tiers_def)
  have "\<exists>res tx r stats.
            locations = Inr res \<and> trace_text = Inr tx
          \<and> r = expected_report h res tx w0
          \<and> stdout w' = stdout w0 @ [JsonDoc r]
          \<and> map size_label (download_speeds r) =
               [''100kB'', ''1MB'', ''10MB'', ''25MB'', ''100MB'', ''overall'']
          \<and> map size_label (upload_speeds r) = [''overall'']
          \<and> [min_ms (latency r), max_ms (latency r), average_ms (latency r),
              median_ms (latency r), jitter_ms (latency r)]
             @ map speed (download_speeds r) @ map speed (upload_speeds r) =
               map (toFixed (number_to_string h) 2) stats"
    apply (rule exI[where x = "projr locations"])
    apply (rule exI[where x = "projr trace_text"])
    apply (rule exI[where x = ?r])
    apply (rule exI[where x = ?stats])
    apply (intro conjI refl l out labels up fields)
    done
  then show ?thesis
    using toFixed_two_decimals[of v big] toFixed_zero[of big] toFixed_names[of big 2]
    by simp
qed

theorem json_report_format_witness:
  "\<exists>w' r. speedTest example_stats [''node'', ''cli.js'', ''--json'']
             (Inr [(''AMS'', ''Amsterdam'')]) (Inr ''colo=AMS'')
             (idle_world (\<lambda>k. Completes mock_exchange)) = Inr w'
     \<and> stdout w' = [JsonDoc r]
     \<and> server_location r = ''Amsterdam (AMS)''
     \<and> min_ms (latency r) = ''40.00''
     \<and> two_decimals (min_ms (latency r))
     \<and> map size_label (download_speeds r) =
          [''100kB'', ''1MB'', ''10MB'', ''25MB'', ''100MB'', ''overall'']
     \<and> map size_label (upload_speeds r) = [''overall'']"
proof -
  let ?w = "idle_world (\<lambda>k. Completes mock_exchange)"
  let ?argv = "[''node'', ''cli.js'', ''--json'']"
  have "\<And>k. settles (settle (net ?w k))"
    by (simp add: idle_world_def settle_mock_exchange)
  then obtain w' where run: "speedTest example_stats ?argv
      (Inr [(''AMS'', ''Amsterdam'')]) (Inr ''colo=AMS'') ?w = Inr w'"
    using speedTest_returns[of ?w example_stats ?argv "[(''AMS'', ''Amsterdam'')]" "''colo=AMS''"]
      example_stats_total by blast
  have s: "stdout ?w = []" by (simp add: idle_world_def)
  have big: "number_to_string example_stats = (\<lambda>r. ''1e+21'')"
    by (simp add: example_stats_def host_spec_stats)
  have forty: "toFixed (\<lambda>r. ''1e+21'') 2 (Fin 40) = ''40.00''"
    by (simp add: toFixed_Fin show_nat.simps digit_char_def)
  let ?r = "expected_report example_stats [(''AMS'', ''Amsterdam'')] ''colo=AMS'' ?w"
  from json_report_format[OF run json_argv, of 40 "\<lambda>r. ''1e+21''"]
  have out: "stdout w' = [JsonDoc ?r]"
    and labels: "map size_label (download_speeds ?r) =
          [''100kB'', ''1MB'', ''10MB'', ''25MB'', ''100MB'', ''overall'']"
    and up: "map size_label (upload_speeds ?r) = [''overall'']"
    and two: "two_decimals (toFixed (\<lambda>r. ''1e+21'') 2 (Fin 40))"
    by (auto simp add: s)
  have loc: "server_location ?r = ''Amsterdam (AMS)''"
    by (simp add: expected_report_def Let_def trace_colo city_of_colo template_of_def)
  have mn: "min_ms (latency ?r) = ''40.00''"
    by (simp add: expected_report_def Let_def latency_series_mock Math_min_twenty big forty)
  from run out loc mn two labels up show ?thesis
    unfolding forty by (intro exI[where x = w'] exI[where x = ?r]) simp
qed

theorem json_report_format_counterexample:
  "map_option (min_ms \<circ> latency)
     (json_report
        (speedTest example_stats [''node'', ''cli.js'', ''--json'']
           (Inr [(''AMS'', ''Amsterdam'')]) (Inr ''colo=AMS'')
           (idle_world (\<lambda>k. Completes other_timing_header)))) = Some ''NaN''
   \<and> \<not> two_decimals ''NaN''"
proof -
  let ?w = "idle_world (\<lambda>k. Completes other_timing_header)"
  let ?argv = "[''node'', ''cli.js'', ''--json'']"
  have "\<And>k. settles (settle (net ?w k))"
    by (simp add: idle_world_def settle_other_timing_header)
  then obtain w' where run: "speedTest example_stats ?argv
      (Inr [(''AMS'', ''Amsterdam'')]) (Inr ''colo=AMS'') ?w = Inr w'"
    using speedTest_returns[of ?w example_stats ?argv "[(''AMS'', ''Amsterdam'')]" "''colo=AMS''"]
      example_stats_total by blast
  have s: "stdout ?w = []" by (simp add: idle_world_def)
  let ?r = "expected_report example_stats [(''AMS'', ''Amsterdam'')] ''colo=AMS'' ?w"
  from speedTest_Inr[OF run] json_argv have out: "stdout w' = [JsonDoc ?r]"
    by (simp add: s)
  have mn: "min_ms (latency ?r) = ''NaN''"
    by (simp add: expected_report_def Let_def latency_series_other Math_min_def toFixed_names)
  have "\<not> two_decimals ''NaN''"
    by (simp add: two_decimals_def is_digit_def)
  with run out mn show ?thesis
    by (simp add: json_report_def)
qed

end
